theory Spec2Isabelle
  imports Complex_Main "HOL-Library.Log_Nat"
begin

section \<open>Python floats\<close>

text \<open>
  Fig5.py computes with Python floats (IEEE 754 binary64). A float is modelled by the
  rational number it denotes, and every float operation rounds its exact result. The
  rounding is a parameter \<open>rnd\<close> of the model, so that a statement can be made for
  \<^item> \<open>exact\<close>: no rounding, the arithmetic of the formulas on paper, and
  \<^item> \<open>binary64\<close>: round to nearest, ties to even, with a 53 bit significand, which is
    what the interpreter does. Overflow to infinity and subnormal numbers are outside
    the model (the exponent is unbounded); no value of the parameter grid of the script
    comes near either range.
\<close>

type_synonym rounding = "rat \<Rightarrow> rat"

definition exact :: rounding where
  "exact x = x"

definition pow2 :: "int \<Rightarrow> rat" where
  "pow2 i = (if 0 \<le> i then 2 ^ nat i else 1 / 2 ^ nat (- i))"

definition round_half_even :: "rat \<Rightarrow> int" where
  "round_half_even y =
     (let f = \<lfloor>y\<rfloor>; d = y - of_int f
      in if d < 1 / 2 then f
         else if 1 / 2 < d then f + 1
         else if even f then f else f + 1)"

text \<open>The binary exponent of a non-zero \<open>x\<close>: \<open>2 ^ e \<le> \<bar>x\<bar> < 2 ^ (e + 1)\<close>.\<close>

definition exponent :: "rat \<Rightarrow> int" where
  "exponent x =
     (let (p, q) = quotient_of \<bar>x\<bar>; k = bitlen p - bitlen q
      in if pow2 k \<le> \<bar>x\<bar> then k else k - 1)"

definition binary64 :: rounding where
  "binary64 x =
     (if x = 0 then 0
      else let u = pow2 (exponent x - 52)
           in sgn x * of_int (round_half_even (\<bar>x\<bar> / u)) * u)"

text \<open>
  A float literal denotes the float nearest to its decimal value; an int operand of a
  mixed operation is converted to float first; \<open>+\<close>, \<open>-\<close> and \<open>*\<close> round once.
\<close>

definition float_lit :: "rounding \<Rightarrow> rat \<Rightarrow> rat" where
  "float_lit rnd q = rnd q"

definition float_of_int :: "rounding \<Rightarrow> int \<Rightarrow> rat" where
  "float_of_int rnd n = rnd (of_int n)"

definition fadd :: "rounding \<Rightarrow> rat \<Rightarrow> rat \<Rightarrow> rat" where
  "fadd rnd a b = rnd (a + b)"

definition fsub :: "rounding \<Rightarrow> rat \<Rightarrow> rat \<Rightarrow> rat" where
  "fsub rnd a b = rnd (a - b)"

definition fmul :: "rounding \<Rightarrow> rat \<Rightarrow> rat \<Rightarrow> rat" where
  "fmul rnd a b = rnd (a * b)"

section \<open>Configuration\<close>

definition NUM_NODES :: "int list" where
  "NUM_NODES = [5, 10, 20]"

definition CONTENTION_LEVELS :: "(string \<times> int) list" where
  "CONTENTION_LEVELS = [(''high'', 20), (''medium'', 100), (''low'', 1000)]"

definition LOCALITY_PERCENTAGES :: "int list" where
  "LOCALITY_PERCENTAGES = [85, 90, 95]"

definition THREADS_PER_NODE :: "int list" where
  "THREADS_PER_NODE = [2, 4, 6, 8, 10, 12]"

definition SYSTEMS :: "string list" where
  "SYSTEMS = [''ALock'', ''MCS'', ''Spin'']"

section \<open>The throughput model\<close>

text \<open>
  The local variables of \<open>generate_synthetic_throughput\<close> when control reaches the
  noise step (line 117): each of the three branches assigns all six of them.
\<close>

record locals =
  base_throughput :: int
  thread_factor :: rat
  locality_factor :: rat
  contention_factor :: rat
  degradation :: rat
  throughput :: rat

definition pre_noise :: "rounding \<Rightarrow> string \<Rightarrow> int \<Rightarrow> int \<Rightarrow> string \<Rightarrow> int \<Rightarrow> locals" where
  "pre_noise rnd system num_threads num_nodes contention locality =
     (let total_threads = num_threads * num_nodes in
      if system = ''ALock'' then
        (let b = 500000;
             tf = fadd rnd (float_lit rnd 1.0)
                    (fmul rnd (float_of_int rnd (num_threads - 1)) (float_lit rnd 0.15));
             lf = (if locality < 100
                   then fadd rnd (float_lit rnd 1.0)
                          (fmul rnd (float_of_int rnd (locality - 85)) (float_lit rnd 0.02))
                   else float_lit rnd 1.3);
             cf = (if contention = ''high'' then float_lit rnd 1.2
                   else if contention = ''medium'' then float_lit rnd 1.0
                   else float_lit rnd 0.85);
             dg = (if total_threads > 100
                   then fsub rnd (float_lit rnd 1.0)
                          (fmul rnd (float_of_int rnd (total_threads - 100)) (float_lit rnd 0.001))
                   else float_lit rnd 1.0)
         in \<lparr>base_throughput = b, thread_factor = tf, locality_factor = lf,
             contention_factor = cf, degradation = dg,
             throughput =
               fmul rnd (fmul rnd (fmul rnd (fmul rnd (float_of_int rnd b) tf) lf) cf) dg\<rparr>)
      else if system = ''MCS'' then
        (let b = 200000;
             tf = fadd rnd (float_lit rnd 1.0)
                    (fmul rnd (float_of_int rnd (num_threads - 1)) (float_lit rnd 0.12));
             lf = (if locality < 100
                   then fadd rnd (float_lit rnd 1.0)
                          (fmul rnd (float_of_int rnd (locality - 85)) (float_lit rnd 0.01))
                   else float_lit rnd 0.1);
             cf = (if contention = ''high'' then float_lit rnd 0.6
                   else if contention = ''medium'' then float_lit rnd 0.9
                   else float_lit rnd 1.0);
             dg = (if total_threads > 80
                   then fsub rnd (float_lit rnd 1.0)
                          (fmul rnd (float_of_int rnd (total_threads - 80)) (float_lit rnd 0.002))
                   else float_lit rnd 1.0)
         in \<lparr>base_throughput = b, thread_factor = tf, locality_factor = lf,
             contention_factor = cf, degradation = dg,
             throughput =
               fmul rnd (fmul rnd (fmul rnd (fmul rnd (float_of_int rnd b) tf) lf) cf) dg\<rparr>)
      else
        (let b = 150000;
             tf = fadd rnd (float_lit rnd 1.0)
                    (fmul rnd (float_of_int rnd (num_threads - 1)) (float_lit rnd 0.08));
             lf = (if locality < 100
                   then fadd rnd (float_lit rnd 1.0)
                          (fmul rnd (float_of_int rnd (locality - 85)) (float_lit rnd 0.005))
                   else float_lit rnd 0.05);
             cf = (if contention = ''high'' then float_lit rnd 0.4
                   else if contention = ''medium'' then float_lit rnd 0.7
                   else float_lit rnd 0.9);
             dg = (if total_threads > 40
                   then fsub rnd (float_lit rnd 1.0)
                          (fmul rnd (float_of_int rnd (total_threads - 40)) (float_lit rnd 0.003))
                   else float_lit rnd 1.0)
         in \<lparr>base_throughput = b, thread_factor = tf, locality_factor = lf,
             contention_factor = cf, degradation = dg,
             throughput =
               fmul rnd (fmul rnd (fmul rnd (fmul rnd (float_of_int rnd b) tf) lf) cf) dg\<rparr>))"

text \<open>
  \<open>np.random.normal(1.0, 0.05)\<close> reads and advances the process-wide generator. The
  generator is a state \<open>'g\<close> and the draw a function \<open>normal\<close> from a state to the
  drawn float and the next state. \<open>max(0, x)\<close> returns \<open>x\<close> when \<open>x > 0\<close> and \<open>0\<close>
  otherwise.
\<close>

definition generate_synthetic_throughput ::
  "rounding \<Rightarrow> ('g \<Rightarrow> rat \<times> 'g) \<Rightarrow> string \<Rightarrow> int \<Rightarrow> int \<Rightarrow> string \<Rightarrow> int \<Rightarrow> 'g \<Rightarrow> rat \<times> 'g" where
  "generate_synthetic_throughput rnd normal system num_threads num_nodes contention locality g =
     (let t = throughput (pre_noise rnd system num_threads num_nodes contention locality);
          (noise, g') = normal g;
          t = max 0 (fmul rnd t noise)
      in (t, g'))"

section \<open>Exceptions and container accesses\<close>

text \<open>
  The exception classes that matter here. \<open>KeyboardInterrupt\<close> and \<open>SystemExit\<close>
  derive from \<open>BaseException\<close> only; the others derive from \<open>Exception\<close>. An
  exception carries its class and the text that \<open>str\<close> gives for it.
\<close>

datatype exc_class =
  KeyError | IndexError | OSError | MemoryError | UnicodeEncodeError | KeyboardInterrupt | SystemExit

fun is_Exception :: "exc_class \<Rightarrow> bool" where
  "is_Exception KeyboardInterrupt = False"
| "is_Exception SystemExit = False"
| "is_Exception _ = True"

datatype py_exception = PyExc (exc_type: exc_class) (exc_str: string)

fun str_nat :: "nat \<Rightarrow> string" where
  "str_nat n =
     (if n < 10 then [''0123456789'' ! n]
      else str_nat (n div 10) @ [''0123456789'' ! (n mod 10)])"

declare str_nat.simps [simp del]

definition str_int :: "int \<Rightarrow> string" where
  "str_int i = (if i < 0 then ''-'' @ str_nat (nat (- i)) else str_nat (nat i))"

definition repr_str :: "string \<Rightarrow> string" where
  "repr_str s = [CHR 0x27] @ s @ [CHR 0x27]"

text \<open>\<open>d[k]\<close> on a dict, \<open>xs[i]\<close> on a list (a negative index counts from the end).\<close>

definition dict_get :: "('k \<Rightarrow> string) \<Rightarrow> ('k \<times> 'v) list \<Rightarrow> 'k \<Rightarrow> py_exception + 'v" where
  "dict_get repr d k =
     (case map_of d k of
        None \<Rightarrow> Inl (PyExc KeyError (repr k))
      | Some v \<Rightarrow> Inr v)"

definition list_get :: "'a list \<Rightarrow> int \<Rightarrow> py_exception + 'a" where
  "list_get xs i =
     (let j = (if i < 0 then i + int (length xs) else i)
      in if 0 \<le> j \<and> j < int (length xs) then Inr (xs ! nat j)
         else Inl (PyExc IndexError ''list index out of range''))"

section \<open>Styling tables\<close>

definition SYSTEM_STYLE_COLS1_3 :: "(string \<times> string \<times> string \<times> string) list" where
  "SYSTEM_STYLE_COLS1_3 =
     [(''ALock'', ''#1f77b4'', ''s'', ''-''),
      (''MCS'', ''#ff7f0e'', ''x'', ''--''),
      (''Spin'', ''#2ca02c'', ''o'', '':'')]"

definition SYSTEM_STYLE_COL4 :: "(string \<times> string \<times> string \<times> string) list" where
  "SYSTEM_STYLE_COL4 =
     [(''ALock'', ''purple'', ''o'', ''-''),
      (''MCS'', ''pink'', ''s'', ''--''),
      (''Spin'', ''orange'', ''x'', '':'')]"

definition LOCALITY_STYLES :: "(int \<times> string) list" where
  "LOCALITY_STYLES = [(85, ''-''), (90, ''--''), (95, '':'')]"

definition CONTENTION_STYLES :: "(string \<times> string) list" where
  "CONTENTION_STYLES = [(''high'', ''-''), (''medium'', ''--''), (''low'', '':'')]"

section \<open>Panels\<close>

text \<open>
  The charting library is outside the program. An \<open>Axes\<close> object is modelled by what the
  script tells it: one \<open>series\<close> for each \<open>ax.plot\<close> call, in call order, and the
  decorations set on it. The grid lines and tick sizes (\<open>ax.grid\<close>,
  \<open>ax.tick_params\<close>) are left out.
\<close>

record series =
  xdata :: "int list"
  ydata :: "rat list"
  line_color :: string
  line_marker :: string
  line_style :: string
  line_width :: int
  marker_size :: int
  marker_edgewidth :: int
  line_label :: "string option"

record axes =
  lines :: "series list"
  xlabel :: string
  ylabel :: string
  xlim :: "(int \<times> int) option"
  xticks :: "int list"
  texts :: "string list"
  title :: string

definition new_axes :: axes where
  "new_axes = \<lparr>lines = [], xlabel = [], ylabel = [], xlim = None, xticks = [],
                texts = [], title = []\<rparr>"

definition plot :: "axes \<Rightarrow> series \<Rightarrow> axes" where
  "plot ax s = ax\<lparr>lines := lines ax @ [s]\<rparr>"

text \<open>The marker rule that both panel kinds apply once the line style is known.\<close>

definition marker_for :: "string \<Rightarrow> string \<Rightarrow> string \<times> int" where
  "marker_for linestyle marker =
     (if linestyle = '':'' then (''s'', 1)
      else if linestyle = ''--'' then (''x'', 2)
      else (marker, 1))"

text \<open>The axis decorations at the end of both panel functions.\<close>

definition decorate :: "axes \<Rightarrow> axes" where
  "decorate ax = ax\<lparr>xlabel := ''Threads per Node'', ylabel := ''Throughput (ops/s)'',
                     xlim := Some (0, 12), xticks := [0, 4, 8, 12]\<rparr>"

text \<open>The loop \<open>for num_threads in THREADS_PER_NODE\<close>, one draw per point.\<close>

fun points ::
  "rounding \<Rightarrow> ('g \<Rightarrow> rat \<times> 'g) \<Rightarrow> string \<Rightarrow> int \<Rightarrow> string \<Rightarrow> int \<Rightarrow> int list
     \<Rightarrow> int list \<times> rat list \<Rightarrow> 'g \<Rightarrow> (int list \<times> rat list) \<times> 'g" where
  "points rnd normal system num_nodes contention locality [] acc g = (acc, g)"
| "points rnd normal system num_nodes contention locality (num_threads # rest)
     (threads_list, throughput_list) g =
     (let (t, g') = generate_synthetic_throughput rnd normal system num_threads num_nodes
                      contention locality g
      in points rnd normal system num_nodes contention locality rest
           (threads_list @ [num_threads], throughput_list @ [t]) g')"

subsection \<open>Columns 1 to 3\<close>

fun locality_loop ::
  "rounding \<Rightarrow> ('g \<Rightarrow> rat \<times> 'g) \<Rightarrow> string \<Rightarrow> string \<Rightarrow> string \<Rightarrow> int \<Rightarrow> string \<Rightarrow> int list
     \<Rightarrow> axes \<Rightarrow> 'g \<Rightarrow> py_exception + axes \<times> 'g" where
  "locality_loop rnd normal system color marker num_nodes contention [] ax g = Inr (ax, g)"
| "locality_loop rnd normal system color marker num_nodes contention (locality # rest) ax g =
     (let ((threads_list, throughput_list), g') =
            points rnd normal system num_nodes contention locality THREADS_PER_NODE ([], []) g
      in case dict_get str_int LOCALITY_STYLES locality of
           Inl e \<Rightarrow> Inl e
         | Inr linestyle \<Rightarrow>
             (let label = (if system = SYSTEMS ! 0
                           then Some (system @ '' '' @ str_int locality @ ''%'') else None);
                  (plot_marker, edgewidth) = marker_for linestyle marker;
                  ax' = plot ax
                          \<lparr>xdata = threads_list, ydata = throughput_list, line_color = color,
                           line_marker = plot_marker, line_style = linestyle, line_width = 2,
                           marker_size = 6, marker_edgewidth = edgewidth, line_label = label\<rparr>
              in locality_loop rnd normal system color marker num_nodes contention rest ax' g'))"

fun systems_loop_cols1_3 ::
  "rounding \<Rightarrow> ('g \<Rightarrow> rat \<times> 'g) \<Rightarrow> int \<Rightarrow> string \<Rightarrow> string list \<Rightarrow> axes \<Rightarrow> 'g
     \<Rightarrow> py_exception + axes \<times> 'g" where
  "systems_loop_cols1_3 rnd normal num_nodes contention [] ax g = Inr (ax, g)"
| "systems_loop_cols1_3 rnd normal num_nodes contention (system # rest) ax g =
     (case dict_get repr_str SYSTEM_STYLE_COLS1_3 system of
        Inl e \<Rightarrow> Inl e
      | Inr (color, marker, _) \<Rightarrow>
          (case locality_loop rnd normal system color marker num_nodes contention
                  LOCALITY_PERCENTAGES ax g of
             Inl e \<Rightarrow> Inl e
           | Inr (ax', g') \<Rightarrow> systems_loop_cols1_3 rnd normal num_nodes contention rest ax' g'))"

definition create_subplot_cols1_3 ::
  "rounding \<Rightarrow> ('g \<Rightarrow> rat \<times> 'g) \<Rightarrow> axes \<Rightarrow> int \<Rightarrow> string \<Rightarrow> 'g \<Rightarrow> py_exception + axes \<times> 'g" where
  "create_subplot_cols1_3 rnd normal ax num_nodes contention g =
     (case systems_loop_cols1_3 rnd normal num_nodes contention SYSTEMS ax g of
        Inl e \<Rightarrow> Inl e
      | Inr (ax', g') \<Rightarrow> Inr (decorate ax', g'))"

subsection \<open>Column 4\<close>

fun contention_loop ::
  "rounding \<Rightarrow> ('g \<Rightarrow> rat \<times> 'g) \<Rightarrow> string \<Rightarrow> string \<Rightarrow> string \<Rightarrow> int \<Rightarrow> string list
     \<Rightarrow> axes \<Rightarrow> 'g \<Rightarrow> py_exception + axes \<times> 'g" where
  "contention_loop rnd normal system color marker num_nodes [] ax g = Inr (ax, g)"
| "contention_loop rnd normal system color marker num_nodes (contention # rest) ax g =
     (let ((threads_list, throughput_list), g') =
            points rnd normal system num_nodes contention 100 THREADS_PER_NODE ([], []) g
      in case dict_get repr_str CONTENTION_STYLES contention of
           Inl e \<Rightarrow> Inl e
         | Inr linestyle \<Rightarrow>
             (case (if system = SYSTEMS ! 0
                    then (case dict_get repr_str CONTENTION_LEVELS contention of
                            Inl e \<Rightarrow> Inl e
                          | Inr keys \<Rightarrow> Inr (Some (system @ '' '' @ str_int keys)))
                    else Inr None) of
                Inl e \<Rightarrow> Inl e
              | Inr label \<Rightarrow>
                  (let (plot_marker, edgewidth) = marker_for linestyle marker;
                       ax' = plot ax
                               \<lparr>xdata = threads_list, ydata = throughput_list, line_color = color,
                                line_marker = plot_marker, line_style = linestyle,
                                line_width = 2, marker_size = 6,
                                marker_edgewidth = edgewidth, line_label = label\<rparr>
                   in contention_loop rnd normal system color marker num_nodes rest ax' g')))"

fun systems_loop_col4 ::
  "rounding \<Rightarrow> ('g \<Rightarrow> rat \<times> 'g) \<Rightarrow> int \<Rightarrow> string list \<Rightarrow> axes \<Rightarrow> 'g
     \<Rightarrow> py_exception + axes \<times> 'g" where
  "systems_loop_col4 rnd normal num_nodes [] ax g = Inr (ax, g)"
| "systems_loop_col4 rnd normal num_nodes (system # rest) ax g =
     (case dict_get repr_str SYSTEM_STYLE_COL4 system of
        Inl e \<Rightarrow> Inl e
      | Inr (color, marker, _) \<Rightarrow>
          (case contention_loop rnd normal system color marker num_nodes
                  [''high'', ''medium'', ''low''] ax g of
             Inl e \<Rightarrow> Inl e
           | Inr (ax', g') \<Rightarrow> systems_loop_col4 rnd normal num_nodes rest ax' g'))"

definition create_subplot_col4 ::
  "rounding \<Rightarrow> ('g \<Rightarrow> rat \<times> 'g) \<Rightarrow> axes \<Rightarrow> int \<Rightarrow> 'g \<Rightarrow> py_exception + axes \<times> 'g" where
  "create_subplot_col4 rnd normal ax num_nodes g =
     (case systems_loop_col4 rnd normal num_nodes SYSTEMS ax g of
        Inl e \<Rightarrow> Inl e
      | Inr (ax', g') \<Rightarrow> Inr (decorate ax', g'))"

section \<open>The grid\<close>

definition labels :: "string list" where
  "labels = [''(a)'', ''(b)'', ''(c)'', ''(d)'', ''(e)'', ''(f)'',
             ''(g)'', ''(h)'', ''(i)'', ''(j)'', ''(k)'', ''(l)'']"

definition col_titles :: "string list" where
  "col_titles = [''20 Keys'', ''100 Keys'', ''1000 Keys'', ''100% Local'']"

definition row_titles :: "string list" where
  "row_titles = [''5 Nodes'', ''10 Nodes'', ''20 Nodes'']"

definition py_range :: "nat \<Rightarrow> int list" where
  "py_range n = map int [0..<n]"

definition py_enumerate :: "'a list \<Rightarrow> (int \<times> 'a) list" where
  "py_enumerate xs = zip (py_range (length xs)) xs"

text \<open>
  \<open>plt.subplots(3, 4)\<close> gives a 3 by 4 array of fresh axes, here a list of rows. The
  script mutates the object \<open>axes[row_idx, col_idx]\<close> in place; the model reads the
  cell, transforms it and writes it back. Both indices come from \<open>range\<close> and
  \<open>enumerate\<close>, so they are never negative.
\<close>

definition axes_get :: "axes list list \<Rightarrow> int \<Rightarrow> int \<Rightarrow> py_exception + axes" where
  "axes_get axs row_idx col_idx =
     (case list_get axs row_idx of
        Inl e \<Rightarrow> Inl e
      | Inr row \<Rightarrow> list_get row col_idx)"

definition axes_set :: "axes list list \<Rightarrow> int \<Rightarrow> int \<Rightarrow> axes \<Rightarrow> axes list list" where
  "axes_set axs row_idx col_idx ax =
     axs[nat row_idx := (axs ! nat row_idx)[nat col_idx := ax]]"

text \<open>
  The inner loop \<open>for row_idx, num_nodes in enumerate(NUM_NODES)\<close>; the state is the
  array of axes, \<open>label_idx\<close> and the generator.
\<close>

fun rows_loop ::
  "rounding \<Rightarrow> ('g \<Rightarrow> rat \<times> 'g) \<Rightarrow> int \<Rightarrow> (int \<times> int) list \<Rightarrow> axes list list \<times> int \<times> 'g
     \<Rightarrow> py_exception + axes list list \<times> int \<times> 'g" where
  "rows_loop rnd normal col_idx [] st = Inr st"
| "rows_loop rnd normal col_idx ((row_idx, num_nodes) # rest) (axs, label_idx, g) =
     (case axes_get axs row_idx col_idx of
        Inl e \<Rightarrow> Inl e
      | Inr ax \<Rightarrow>
          (case (if col_idx < 3
                 then (case list_get [''high'', ''medium'', ''low''] col_idx of
                         Inl e \<Rightarrow> Inl e
                       | Inr contention \<Rightarrow>
                           create_subplot_cols1_3 rnd normal ax num_nodes contention g)
                 else create_subplot_col4 rnd normal ax num_nodes g) of
             Inl e \<Rightarrow> Inl e
           | Inr (ax1, g') \<Rightarrow>
               (let ax2 = (if col_idx > 0 then ax1\<lparr>ylabel := []\<rparr> else ax1)
                in case list_get labels label_idx of
                     Inl e \<Rightarrow> Inl e
                   | Inr l \<Rightarrow>
                       (let ax3 = ax2\<lparr>texts := texts ax2 @ [l]\<rparr>;
                            label_idx' = label_idx + 1
                        in case list_get col_titles col_idx of
                             Inl e \<Rightarrow> Inl e
                           | Inr ct \<Rightarrow>
                               (case list_get row_titles row_idx of
                                  Inl e \<Rightarrow> Inl e
                                | Inr rt \<Rightarrow>
                                    rows_loop rnd normal col_idx rest
                                      (axes_set axs row_idx col_idx
                                         (ax3\<lparr>title := ct @ '', '' @ rt\<rparr>),
                                       label_idx', g'))))))"

fun cols_loop ::
  "rounding \<Rightarrow> ('g \<Rightarrow> rat \<times> 'g) \<Rightarrow> int list \<Rightarrow> axes list list \<times> int \<times> 'g
     \<Rightarrow> py_exception + axes list list \<times> int \<times> 'g" where
  "cols_loop rnd normal [] st = Inr st"
| "cols_loop rnd normal (col_idx # rest) st =
     (case rows_loop rnd normal col_idx (py_enumerate NUM_NODES) st of
        Inl e \<Rightarrow> Inl e
      | Inr st' \<Rightarrow> cols_loop rnd normal rest st')"

text \<open>
  Laying out and writing the image (\<open>plt.tight_layout\<close>, \<open>plt.savefig\<close>,
  \<open>plt.close\<close>) is the library's work and may raise: \<open>savefig\<close> takes the path and the
  axes and returns the exception raised, if any. The library calls that build the panels
  are taken to succeed in this function; what \<open>main\<close> does with an exception does not
  depend on which call raised it (see \<open>main_from\<close>). The path is
  \<open>os.path.join('fig5_plots', 'figure5_grid.png')\<close> with the POSIX separator.
\<close>

definition create_figure5_grid ::
  "rounding \<Rightarrow> ('g \<Rightarrow> rat \<times> 'g) \<Rightarrow> (string \<Rightarrow> axes list list \<Rightarrow> py_exception option) \<Rightarrow> 'g
     \<Rightarrow> py_exception + string \<times> axes list list \<times> 'g" where
  "create_figure5_grid rnd normal savefig g =
     (let axs = replicate 3 (replicate 4 new_axes);
          label_idx = 0
      in case cols_loop rnd normal (py_range 4) (axs, label_idx, g) of
           Inl e \<Rightarrow> Inl e
         | Inr (axs', _, g') \<Rightarrow>
             (let save_path = ''fig5_plots/figure5_grid.png''
              in case savefig save_path axs' of
                   Some e \<Rightarrow> Inl e
                 | None \<Rightarrow> Inr (save_path, axs', g')))"

section \<open>The entry point\<close>

text \<open>
  What \<open>main\<close> writes, in order: a \<open>print\<close> of a string to standard output, or the trace
  that \<open>traceback.print_exc()\<close> writes to standard error for the exception being
  handled. \<open>main\<close> either returns or lets an exception through. The progress bar writes
  to standard error and is left out.
\<close>

datatype written = Print string | Print_exc py_exception

datatype outcome = Returned | Raised py_exception

definition check_mark :: string where
  "check_mark = [CHR 0xE2, CHR 0x9C, CHR 0x93]"

definition cross_mark :: string where
  "cross_mark = [CHR 0xE2, CHR 0x9D, CHR 0x8C]"

text \<open>
  A \<open>print\<close> can raise: standard output raises \<open>UnicodeEncodeError\<close> for a text its
  encoding cannot represent. Standard output is the function \<open>write\<close> from a text to the
  exception it raises for it, if any. Standard error replaces what it cannot encode, so
  the trace is always written.
\<close>

definition py_print ::
  "(string \<Rightarrow> py_exception option) \<Rightarrow> string \<Rightarrow> written list \<Rightarrow> py_exception + written list" where
  "py_print write line out =
     (case write line of
        Some e \<Rightarrow> Inl e
      | None \<Rightarrow> Inr (out @ [Print line]))"

text \<open>
  The body of the \<open>try\<close> statement, given what the call \<open>create_figure5_grid()\<close> did:
  it raised, or it returned the path and the three lines of the report are printed. The
  result is the output so far, with the exception when one is raised.
\<close>

definition try_block ::
  "(string \<Rightarrow> py_exception option) \<Rightarrow> written list \<Rightarrow> py_exception + string
     \<Rightarrow> written list \<times> py_exception option" where
  "try_block write out called =
     (case called of
        Inl e \<Rightarrow> (out, Some e)
      | Inr save_path \<Rightarrow>
          (case py_print write (CHR 0x0A # replicate 60 CHR ''='') out of
             Inl e \<Rightarrow> (out, Some e)
           | Inr out1 \<Rightarrow>
               (case py_print write
                       (check_mark @ '' Successfully generated Figure 5 grid: '' @ save_path)
                       out1 of
                  Inl e \<Rightarrow> (out1, Some e)
                | Inr out2 \<Rightarrow>
                    (case py_print write
                            (CHR 0x0A # ''Note: This uses synthetic data. Replace generate_synthetic_throughput() with your real data!'')
                            out2 of
                       Inl e \<Rightarrow> (out2, Some e)
                     | Inr out3 \<Rightarrow> (out3, None)))))"

text \<open>The handler \<open>except Exception as e\<close>; an exception raised in it leaves \<open>main\<close>.\<close>

definition except_Exception ::
  "(string \<Rightarrow> py_exception option) \<Rightarrow> written list \<Rightarrow> py_exception \<Rightarrow> written list \<times> outcome" where
  "except_Exception write out e =
     (case py_print write (CHR 0x0A # cross_mark @ '' Error generating plot: '' @ exc_str e) out of
        Inl e' \<Rightarrow> (out, Raised e')
      | Inr out1 \<Rightarrow> (out1 @ [Print_exc e], Returned))"

text \<open>
  \<open>main\<close>, given what the call \<open>create_figure5_grid()\<close> does once it is reached: the two
  banner lines are printed outside the \<open>try\<close> statement, and the handler is entered only
  for an instance of \<open>Exception\<close>.
\<close>

definition main_from ::
  "(string \<Rightarrow> py_exception option) \<Rightarrow> py_exception + string \<Rightarrow> written list \<times> outcome" where
  "main_from write called =
     (case py_print write ''Generating Figure 5 grid layout...'' [] of
        Inl e \<Rightarrow> ([], Raised e)
      | Inr out1 \<Rightarrow>
          (case py_print write (replicate 60 CHR ''='') out1 of
             Inl e \<Rightarrow> (out1, Raised e)
           | Inr out2 \<Rightarrow>
               (case try_block write out2 called of
                  (out, None) \<Rightarrow> (out, Returned)
                | (out, Some e) \<Rightarrow>
                    if is_Exception (exc_type e) then except_Exception write out e
                    else (out, Raised e))))"

definition main ::
  "rounding \<Rightarrow> ('g \<Rightarrow> rat \<times> 'g) \<Rightarrow> (string \<Rightarrow> axes list list \<Rightarrow> py_exception option)
     \<Rightarrow> (string \<Rightarrow> py_exception option) \<Rightarrow> 'g \<Rightarrow> written list \<times> outcome" where
  "main rnd normal savefig write g =
     main_from write
       (case create_figure5_grid rnd normal savefig g of
          Inl e \<Rightarrow> Inl e
        | Inr (save_path, _, _) \<Rightarrow> Inr save_path)"

text \<open>
  The script body: \<open>np.random.seed(42)\<close> sets the generator, then \<open>main()\<close> runs.
  \<open>seed\<close> is the library's function from a seed to a generator state.
\<close>

definition script ::
  "rounding \<Rightarrow> (int \<Rightarrow> 'g) \<Rightarrow> ('g \<Rightarrow> rat \<times> 'g)
     \<Rightarrow> (string \<Rightarrow> axes list list \<Rightarrow> py_exception option)
     \<Rightarrow> (string \<Rightarrow> py_exception option) \<Rightarrow> written list \<times> outcome" where
  "script rnd seed normal savefig write = main rnd normal savefig write (seed 42)"

section \<open>The specification's tables\<close>

text \<open>
  The constants and formula shapes as the specification words them, one table per
  constant, keyed by system (or by contention level). They are compared below with what
  \<open>pre_noise\<close> computes.
\<close>

definition spec_base :: "(string \<times> int) list" where
  "spec_base = [(''ALock'', 500000), (''MCS'', 200000), (''Spin'', 150000)]"

definition spec_thread_slope :: "(string \<times> rat) list" where
  "spec_thread_slope = [(''ALock'', 0.15), (''MCS'', 0.12), (''Spin'', 0.08)]"

definition spec_alock_contention :: "(string \<times> rat) list" where
  "spec_alock_contention = [(''high'', 1.2), (''medium'', 1.0), (''low'', 0.85)]"

definition spec_locality_slope :: "(string \<times> rat) list" where
  "spec_locality_slope = [(''ALock'', 0.02), (''MCS'', 0.01), (''Spin'', 0.005)]"

definition spec_locality_override :: "(string \<times> rat) list" where
  "spec_locality_override = [(''ALock'', 1.3), (''MCS'', 0.1), (''Spin'', 0.05)]"

definition spec_knee :: "(string \<times> int) list" where
  "spec_knee = [(''ALock'', 100), (''MCS'', 80), (''Spin'', 40)]"

definition spec_decay_rate :: "(string \<times> rat) list" where
  "spec_decay_rate = [(''ALock'', 0.001), (''MCS'', 0.002), (''Spin'', 0.003)]"

definition spec_linear :: "rounding \<Rightarrow> int \<Rightarrow> rat \<Rightarrow> rat" where
  "spec_linear rnd d m = fadd rnd (float_lit rnd 1) (fmul rnd (float_of_int rnd d) (float_lit rnd m))"

definition spec_product :: "rounding \<Rightarrow> int \<Rightarrow> rat \<Rightarrow> rat \<Rightarrow> rat \<Rightarrow> rat \<Rightarrow> rat" where
  "spec_product rnd b tf lf cf dg =
     fmul rnd (fmul rnd (fmul rnd (fmul rnd (float_of_int rnd b) tf) lf) cf) dg"

section \<open>Closed forms of the loops\<close>

text \<open>
  The floats the generator yields from a state on, and the state after a number of
  draws; the value \<open>generate_synthetic_throughput\<close> returns for a given draw; the six
  points of one curve; the series a panel function plots on fresh axes; and the axes of
  the array once the grid loops are done. The lemmas below show that the loops compute
  exactly these.
\<close>

fun draws :: "('g \<Rightarrow> rat \<times> 'g) \<Rightarrow> nat \<Rightarrow> 'g \<Rightarrow> rat list" where
  "draws normal 0 g = []"
| "draws normal (Suc n) g = fst (normal g) # draws normal n (snd (normal g))"

fun advance :: "('g \<Rightarrow> rat \<times> 'g) \<Rightarrow> nat \<Rightarrow> 'g \<Rightarrow> 'g" where
  "advance normal 0 g = g"
| "advance normal (Suc n) g = advance normal n (snd (normal g))"

definition noisy :: "rounding \<Rightarrow> string \<Rightarrow> int \<Rightarrow> string \<Rightarrow> int \<Rightarrow> int \<Rightarrow> rat \<Rightarrow> rat" where
  "noisy rnd system num_nodes contention locality num_threads z =
     max 0 (fmul rnd (throughput (pre_noise rnd system num_threads num_nodes contention locality)) z)"

definition curve ::
  "rounding \<Rightarrow> ('g \<Rightarrow> rat \<times> 'g) \<Rightarrow> string \<Rightarrow> int \<Rightarrow> string \<Rightarrow> int \<Rightarrow> 'g \<Rightarrow> rat list" where
  "curve rnd normal system num_nodes contention locality g =
     map (\<lambda>(num_threads, z). noisy rnd system num_nodes contention locality num_threads z)
       (zip THREADS_PER_NODE (draws normal (length THREADS_PER_NODE) g))"

definition lines_cols1_3 ::
  "rounding \<Rightarrow> ('g \<Rightarrow> rat \<times> 'g) \<Rightarrow> int \<Rightarrow> string \<Rightarrow> 'g \<Rightarrow> series list" where
  "lines_cols1_3 rnd normal num_nodes contention g =
     (case create_subplot_cols1_3 rnd normal new_axes num_nodes contention g of
        Inl e \<Rightarrow> []
      | Inr (ax, g') \<Rightarrow> lines ax)"

definition lines_col4 ::
  "rounding \<Rightarrow> ('g \<Rightarrow> rat \<times> 'g) \<Rightarrow> int \<Rightarrow> 'g \<Rightarrow> series list" where
  "lines_col4 rnd normal num_nodes g =
     (case create_subplot_col4 rnd normal new_axes num_nodes g of
        Inl e \<Rightarrow> []
      | Inr (ax, g') \<Rightarrow> lines ax)"

definition cell :: "rounding \<Rightarrow> ('g \<Rightarrow> rat \<times> 'g) \<Rightarrow> 'g \<Rightarrow> nat \<Rightarrow> nat \<Rightarrow> axes" where
  "cell rnd normal g r c =
     (let g0 = advance normal (54 * (3 * c + r)) g;
          num_nodes = NUM_NODES ! r
      in \<lparr>lines = (if c < 3
                   then lines_cols1_3 rnd normal num_nodes ([''high'', ''medium'', ''low''] ! c) g0
                   else lines_col4 rnd normal num_nodes g0),
          xlabel = ''Threads per Node'',
          ylabel = (if 0 < c then [] else ''Throughput (ops/s)''),
          xlim = Some (0, 12), xticks = [0, 4, 8, 12],
          texts = [labels ! (3 * c + r)],
          title = col_titles ! c @ '', '' @ row_titles ! r\<rparr>)"

definition grid_axes :: "rounding \<Rightarrow> ('g \<Rightarrow> rat \<times> 'g) \<Rightarrow> 'g \<Rightarrow> axes list list" where
  "grid_axes rnd normal g = map (\<lambda>r. map (\<lambda>c. cell rnd normal g r c) [0..<4]) [0..<3]"

section \<open>The order of the calls\<close>

text \<open>
  The parameter tuples (system, threads per node, node count, contention, locality) in
  the order the specification gives for the calls of the throughput model: panels in
  column-major traversal, within a panel the systems in the order ALock, MCS, Spin, within
  a system the three variants in their fixed order, within a variant the threads per
  node. \<open>throughput_of\<close> is the value the model returns for a tuple and a draw, and
  \<open>throughput_sequence\<close> reads the plotted values off the array of axes in the same
  traversal order.
\<close>

type_synonym parameters = "string \<times> int \<times> int \<times> string \<times> int"

definition series_contention :: "nat \<Rightarrow> nat \<Rightarrow> string" where
  "series_contention c v = [''high'', ''medium'', ''low''] ! (if c < 3 then c else v)"

definition series_locality :: "nat \<Rightarrow> nat \<Rightarrow> int" where
  "series_locality c v = (if c < 3 then LOCALITY_PERCENTAGES ! v else 100)"

definition panel_parameters :: "nat \<Rightarrow> int \<Rightarrow> parameters list" where
  "panel_parameters c num_nodes =
     concat (map (\<lambda>system.
       concat (map (\<lambda>v.
         map (\<lambda>num_threads.
                (system, num_threads, num_nodes, series_contention c v, series_locality c v))
           THREADS_PER_NODE)
         [0..<3]))
       SYSTEMS)"

definition parameter_sequence :: "parameters list" where
  "parameter_sequence =
     concat (map (\<lambda>c. concat (map (panel_parameters c) NUM_NODES)) [0..<4])"

definition throughput_of :: "rounding \<Rightarrow> parameters \<times> rat \<Rightarrow> rat" where
  "throughput_of rnd =
     (\<lambda>((system, num_threads, num_nodes, contention, locality), z).
        noisy rnd system num_nodes contention locality num_threads z)"

definition throughput_sequence :: "axes list list \<Rightarrow> rat list" where
  "throughput_sequence axs =
     concat (map (\<lambda>c. concat (map (\<lambda>r. concat (map ydata (lines (axs ! r ! c)))) [0..<3]))
       [0..<4])"

text \<open>
  For concrete runs: a generator that always draws 1.0 and one that always draws -1.0; a
  standard output that encodes every text and one that encodes ASCII only; a \<open>savefig\<close>
  that succeeds, one that is interrupted from the keyboard and one that finds the disk
  full.
\<close>

definition write_utf8 :: "string \<Rightarrow> py_exception option" where
  "write_utf8 line = None"

definition write_ascii :: "string \<Rightarrow> py_exception option" where
  "write_ascii line =
     (if list_all (\<lambda>ch. of_char ch < (128::nat)) line then None
      else Some (PyExc UnicodeEncodeError ''ordinal not in range(128)''))"

definition unit_normal :: "unit \<Rightarrow> rat \<times> unit" where
  "unit_normal u = (1, u)"

definition negative_normal :: "unit \<Rightarrow> rat \<times> unit" where
  "negative_normal u = (- 1, u)"

definition savefig_ok :: "string \<Rightarrow> axes list list \<Rightarrow> py_exception option" where
  "savefig_ok path axs = None"


definition savefig_disk_full :: "string \<Rightarrow> axes list list \<Rightarrow> py_exception option" where
  "savefig_disk_full path axs = Some (PyExc OSError ''No space left on device'')"

text \<open>A second generator, on another state type, and two seeding functions.\<close>

definition counting_normal :: "nat \<Rightarrow> rat \<times> nat" where
  "counting_normal n = (1, Suc n)"

definition unit_seed :: "int \<Rightarrow> unit" where
  "unit_seed i = ()"

definition nat_seed :: "int \<Rightarrow> nat" where
  "nat_seed i = nat i"

section \<open>Rounding keeps the sign\<close>

lemma pow2_powi: "pow2 i = 2 powi i"
  by (simp add: pow2_def power_int_def inverse_eq_divide power_one_over)

lemma pow2_pos: "0 < pow2 i"
  by (simp add: pow2_powi)

lemma pow2_mono: "i \<le> j \<Longrightarrow> pow2 i \<le> pow2 j"
  by (simp add: pow2_powi power_int_increasing)

lemma exponent_le:
  assumes "x \<noteq> 0"
  shows "pow2 (exponent x) \<le> \<bar>x\<bar>"
proof -
  obtain p q where pq: "quotient_of \<bar>x\<bar> = (p, q)"
    by (cases "quotient_of \<bar>x\<bar>")
  have q: "0 < q" using pq by (rule quotient_of_denom_pos)
  have x: "\<bar>x\<bar> = of_int p / of_int q" using pq by (rule quotient_of_div)
  have "0 < \<bar>x\<bar>" using assms by simp
  with x q have p: "0 < p" by (simp add: zero_less_divide_iff)
  define k where "k = bitlen p - bitlen q"
  have e: "exponent x = (if pow2 k \<le> \<bar>x\<bar> then k else k - 1)"
    by (simp add: exponent_def pq k_def Let_def)
  have "pow2 (k - 1) \<le> \<bar>x\<bar>"
  proof -
    have bp: "1 \<le> bitlen p" using p by (simp add: bitlen_alt_def)
    have "(2::int) ^ nat (bitlen p - 1) \<le> p" using bitlen_bounds [OF p] by simp
    then have "(of_int ((2::int) ^ nat (bitlen p - 1)) :: rat) \<le> of_int p"
      by (simp only: of_int_le_iff)
    then have lo: "(2::rat) powi (bitlen p - 1) \<le> of_int p"
      using bp by (simp add: power_int_def)
    have "q < 2 ^ nat (bitlen q)" using bitlen_bounds [OF q] by simp
    then have "(of_int q :: rat) < of_int ((2::int) ^ nat (bitlen q))"
      by (simp only: of_int_less_iff)
    then have hi: "(of_int q :: rat) \<le> 2 powi (bitlen q)"
      using bitlen_nonneg [of q] by (simp add: power_int_def)
    have "k - 1 = (bitlen p - 1) - bitlen q" by (simp add: k_def)
    then have "pow2 (k - 1) = 2 powi ((bitlen p - 1) - bitlen q)"
      by (simp only: pow2_powi)
    also have "\<dots> = 2 powi (bitlen p - 1) / 2 powi (bitlen q)"
      by (rule power_int_diff) simp
    also have "\<dots> \<le> of_int p / 2 powi (bitlen q)"
      using lo by (simp add: divide_right_mono)
    also have "\<dots> \<le> of_int p / of_int q"
      using hi p q by (simp add: divide_left_mono)
    finally show ?thesis using x by simp
  qed
  with e show ?thesis by simp
qed

lemma round_half_even_ge: "1 \<le> y \<Longrightarrow> 1 \<le> round_half_even y"
proof -
  assume "1 \<le> y"
  then have "1 \<le> \<lfloor>y\<rfloor>" by simp
  then show ?thesis by (simp add: round_half_even_def Let_def)
qed

lemma binary64_sgn: "sgn (binary64 x) = sgn x"
proof (cases "x = 0")
  case True
  then show ?thesis by (simp add: binary64_def)
next
  case False
  define u where "u = pow2 (exponent x - 52)"
  have u: "0 < u" by (simp add: u_def pow2_pos)
  have "u \<le> pow2 (exponent x)" unfolding u_def by (rule pow2_mono) simp
  also have "\<dots> \<le> \<bar>x\<bar>" using False by (rule exponent_le)
  finally have "1 \<le> \<bar>x\<bar> / u" using u by simp
  then have "1 \<le> round_half_even (\<bar>x\<bar> / u)" by (rule round_half_even_ge)
  then have m: "0 < (of_int (round_half_even (\<bar>x\<bar> / u)) :: rat)" by simp
  have "binary64 x = sgn x * of_int (round_half_even (\<bar>x\<bar> / u)) * u"
    using False by (simp add: binary64_def u_def Let_def)
  then show ?thesis using m u by (simp add: sgn_mult)
qed

section \<open>A certificate for one rounding\<close>

text \<open>
  \<open>binary64 x\<close> is \<open>m * 2 ^ e\<close> as soon as \<open>x\<close> lies in the binade of unit \<open>2 ^ e\<close> and
  within half a unit of \<open>m * 2 ^ e\<close> (a tie goes to the even \<open>m\<close>); checking that needs
  numeral arithmetic only.
\<close>

lemma pow2_add: "pow2 (i + j) = pow2 i * pow2 j"
  by (simp add: pow2_powi power_int_add)

lemma pow2_less_imp: "pow2 i < pow2 j \<Longrightarrow> i < j"
  using pow2_mono [of j i] by (cases "i < j") simp_all

lemma exponent_less:
  assumes "x \<noteq> 0"
  shows "\<bar>x\<bar> < pow2 (exponent x + 1)"
proof -
  obtain p q where pq: "quotient_of \<bar>x\<bar> = (p, q)"
    by (cases "quotient_of \<bar>x\<bar>")
  have q: "0 < q" using pq by (rule quotient_of_denom_pos)
  have x: "\<bar>x\<bar> = of_int p / of_int q" using pq by (rule quotient_of_div)
  have "0 < \<bar>x\<bar>" using assms by simp
  with x q have p: "0 < p" by (simp add: zero_less_divide_iff)
  define k where "k = bitlen p - bitlen q"
  have e: "exponent x = (if pow2 k \<le> \<bar>x\<bar> then k else k - 1)"
    by (simp add: exponent_def pq k_def Let_def)
  have up: "\<bar>x\<bar> < pow2 (k + 1)"
  proof -
    have bq: "1 \<le> bitlen q" using q by (simp add: bitlen_alt_def)
    have "p < 2 ^ nat (bitlen p)" using bitlen_bounds [OF p] by simp
    then have "(of_int p :: rat) < of_int ((2::int) ^ nat (bitlen p))"
      by (simp only: of_int_less_iff)
    then have hi: "(of_int p :: rat) < 2 powi (bitlen p)"
      using bitlen_nonneg [of p] by (simp add: power_int_def)
    have "(2::int) ^ nat (bitlen q - 1) \<le> q" using bitlen_bounds [OF q] by simp
    then have "(of_int ((2::int) ^ nat (bitlen q - 1)) :: rat) \<le> of_int q"
      by (simp only: of_int_le_iff)
    then have lo: "(2::rat) powi (bitlen q - 1) \<le> of_int q"
      using bq by (simp add: power_int_def)
    have pos: "(0::rat) < 2 powi (bitlen q - 1)" by simp
    have "of_int p / of_int q \<le> of_int p / (2::rat) powi (bitlen q - 1)"
      using p pos lo by (intro frac_le) simp_all
    also have "\<dots> < 2 powi (bitlen p) / 2 powi (bitlen q - 1)"
      using hi pos by (simp add: divide_strict_right_mono)
    also have "\<dots> = 2 powi (bitlen p - (bitlen q - 1))"
      by (rule power_int_diff [symmetric]) simp
    also have "bitlen p - (bitlen q - 1) = k + 1" by (simp add: k_def)
    finally show ?thesis using x by (simp add: pow2_powi)
  qed
  show ?thesis
  proof (cases "pow2 k \<le> \<bar>x\<bar>")
    case True
    with e up show ?thesis by simp
  next
    case False
    with e show ?thesis by simp
  qed
qed

lemma exponent_unique:
  assumes "x \<noteq> 0" and "pow2 a \<le> \<bar>x\<bar>" and "\<bar>x\<bar> < pow2 (a + 1)"
  shows "exponent x = a"
proof -
  have "pow2 (exponent x) < pow2 (a + 1)"
    using exponent_le [OF assms(1)] assms(3) by simp
  then have 1: "exponent x < a + 1" by (rule pow2_less_imp)
  have "pow2 a < pow2 (exponent x + 1)"
    using exponent_less [OF assms(1)] assms(2) by simp
  then have 2: "a < exponent x + 1" by (rule pow2_less_imp)
  from 1 2 show ?thesis by simp
qed

lemma round_half_even_eqI:
  assumes "\<bar>y - of_int m\<bar> < 1 / 2 \<or> \<bar>y - of_int m\<bar> = 1 / 2 \<and> even m"
  shows "round_half_even y = m"
proof -
  consider (above) "of_int m \<le> y" "y - of_int m < 1 / 2"
    | (below) "y < of_int m" "of_int m - y < 1 / 2"
    | (tie_above) "y = of_int m + 1 / 2" "even m"
    | (tie_below) "y = of_int m - 1 / 2" "even m"
    using assms by (auto simp: abs_if split: if_splits)
  then show ?thesis
  proof cases
    case above
    then have "\<lfloor>y\<rfloor> = m" by (intro floor_unique) simp_all
    with above show ?thesis by (simp add: round_half_even_def Let_def)
  next
    case below
    then have "of_int (m - 1) \<le> y" "y < of_int (m - 1) + 1" by simp_all
    then have f: "\<lfloor>y\<rfloor> = m - 1" by (rule floor_unique)
    from below have "1 / 2 < y - of_int (m - 1)" by simp
    with f show ?thesis by (simp add: round_half_even_def Let_def)
  next
    case tie_above
    then have "of_int m \<le> y" "y < of_int m + 1" by simp_all
    then have f: "\<lfloor>y\<rfloor> = m" by (rule floor_unique)
    from tie_above have "y - of_int m = 1 / 2" by simp
    with f tie_above(2) show ?thesis by (simp add: round_half_even_def Let_def)
  next
    case tie_below
    then have "of_int (m - 1) \<le> y" "y < of_int (m - 1) + 1" by simp_all
    then have f: "\<lfloor>y\<rfloor> = m - 1" by (rule floor_unique)
    from tie_below have "y - of_int (m - 1) = 1 / 2" by simp
    with f tie_below(2) show ?thesis by (simp add: round_half_even_def Let_def)
  qed
qed

lemma binary64_eqI:
  assumes "0 < x" and y: "y = of_int m * pow2 e"
      and lo: "2 ^ 52 * pow2 e \<le> x" and hi: "x < 2 ^ 53 * pow2 e"
      and near: "\<bar>x - y\<bar> < pow2 e / 2 \<or> \<bar>x - y\<bar> = pow2 e / 2 \<and> even m"
  shows "binary64 x = y"
proof -
  have x: "x \<noteq> 0" "\<bar>x\<bar> = x" "sgn x = 1" using assms(1) by simp_all
  have c52: "pow2 52 = 2 ^ 52" and c53: "pow2 53 = 2 ^ 53" by (simp_all add: pow2_def)
  have p52: "pow2 (e + 52) = 2 ^ 52 * pow2 e"
    using pow2_add [of e 52] by (simp only: c52 mult.commute)
  have "e + 52 + 1 = e + 53" by simp
  then have p53: "pow2 (e + 52 + 1) = 2 ^ 53 * pow2 e"
    using pow2_add [of e 53] by (simp only: c53 mult.commute)
  have lo': "pow2 (e + 52) \<le> \<bar>x\<bar>" unfolding p52 x(2) by (rule lo)
  have hi': "\<bar>x\<bar> < pow2 (e + 52 + 1)" unfolding p53 x(2) by (rule hi)
  have "exponent x = e + 52" using x(1) lo' hi' by (rule exponent_unique)
  then have u: "pow2 (exponent x - 52) = pow2 e" by simp
  have d: "\<bar>x / pow2 e - of_int m\<bar> = \<bar>x - y\<bar> / pow2 e"
    using pow2_pos [of e] by (simp add: y field_simps abs_if)
  have "\<bar>x / pow2 e - of_int m\<bar> < 1 / 2 \<or>
        \<bar>x / pow2 e - of_int m\<bar> = 1 / 2 \<and> even m"
    unfolding d using near pow2_pos [of e] by (auto simp: field_simps)
  then have "round_half_even (x / pow2 e) = m" by (rule round_half_even_eqI)
  then show ?thesis using x by (simp add: binary64_def u Let_def y)
qed

section \<open>The throughput formula\<close>

lemma float_lit_order:
  assumes "rnd = exact \<or> rnd = binary64"
  shows "float_lit rnd 0.9 < float_lit rnd 1.0" "float_lit rnd 0.6 < float_lit rnd 0.9"
        "float_lit rnd 0.7 < float_lit rnd 0.9" "float_lit rnd 0.4 < float_lit rnd 0.7"
proof -
  have b: "float_lit binary64 0.9 < float_lit binary64 1.0"
          "float_lit binary64 0.6 < float_lit binary64 0.9"
          "float_lit binary64 0.7 < float_lit binary64 0.9"
          "float_lit binary64 0.4 < float_lit binary64 0.7"
    by code_simp+
  have e: "float_lit exact 0.9 < float_lit exact 1.0"
          "float_lit exact 0.6 < float_lit exact 0.9"
          "float_lit exact 0.7 < float_lit exact 0.9"
          "float_lit exact 0.4 < float_lit exact 0.7"
    by (simp_all add: float_lit_def exact_def)
  show "float_lit rnd 0.9 < float_lit rnd 1.0" "float_lit rnd 0.6 < float_lit rnd 0.9"
        "float_lit rnd 0.7 < float_lit rnd 0.9" "float_lit rnd 0.4 < float_lit rnd 0.7"
    using assms b e by blast+
qed

lemma float_lit_one:
  assumes "rnd = exact \<or> rnd = binary64"
  shows "float_lit rnd 1 = 1"
proof -
  have "float_lit binary64 1 = 1" by code_simp
  moreover have "float_lit exact 1 = 1" by (simp add: float_lit_def exact_def)
  ultimately show ?thesis using assms by blast
qed

lemma sys_cases:
  assumes "map_of spec_base system = Some b"
  shows "system = ''ALock'' \<and> b = 500000 \<or> system = ''MCS'' \<and> b = 200000 \<or>
         system = ''Spin'' \<and> b = 150000"
  using assms unfolding spec_base_def by (simp split: if_splits)

lemma pre_noise_ALock:
  "pre_noise rnd ''ALock'' t n c l =
     (let tf = spec_linear rnd (t - 1) 0.15;
          lf = (if l < 100 then spec_linear rnd (l - 85) 0.02 else float_lit rnd 1.3);
          cf = (if c = ''high'' then float_lit rnd 1.2
                else if c = ''medium'' then float_lit rnd 1.0 else float_lit rnd 0.85);
          dg = (if t * n > 100
                then fsub rnd (float_lit rnd 1)
                       (fmul rnd (float_of_int rnd (t * n - 100)) (float_lit rnd 0.001))
                else float_lit rnd 1)
      in \<lparr>base_throughput = 500000, thread_factor = tf, locality_factor = lf,
          contention_factor = cf, degradation = dg,
          throughput = spec_product rnd 500000 tf lf cf dg\<rparr>)"
  by (simp add: pre_noise_def Let_def spec_linear_def spec_product_def)


lemma pre_noise_MCS:
  "pre_noise rnd ''MCS'' t n c l =
     (let tf = spec_linear rnd (t - 1) 0.12;
          lf = (if l < 100 then spec_linear rnd (l - 85) 0.01 else float_lit rnd 0.1);
          cf = (if c = ''high'' then float_lit rnd 0.6
                else if c = ''medium'' then float_lit rnd 0.9 else float_lit rnd 1.0);
          dg = (if t * n > 80
                then fsub rnd (float_lit rnd 1)
                       (fmul rnd (float_of_int rnd (t * n - 80)) (float_lit rnd 0.002))
                else float_lit rnd 1)
      in \<lparr>base_throughput = 200000, thread_factor = tf, locality_factor = lf,
          contention_factor = cf, degradation = dg,
          throughput = spec_product rnd 200000 tf lf cf dg\<rparr>)"
  by (simp add: pre_noise_def Let_def spec_linear_def spec_product_def)

lemma pre_noise_Spin:
  "pre_noise rnd ''Spin'' t n c l =
     (let tf = spec_linear rnd (t - 1) 0.08;
          lf = (if l < 100 then spec_linear rnd (l - 85) 0.005 else float_lit rnd 0.05);
          cf = (if c = ''high'' then float_lit rnd 0.4
                else if c = ''medium'' then float_lit rnd 0.7 else float_lit rnd 0.9);
          dg = (if t * n > 40
                then fsub rnd (float_lit rnd 1)
                       (fmul rnd (float_of_int rnd (t * n - 40)) (float_lit rnd 0.003))
                else float_lit rnd 1)
      in \<lparr>base_throughput = 150000, thread_factor = tf, locality_factor = lf,
          contention_factor = cf, degradation = dg,
          throughput = spec_product rnd 150000 tf lf cf dg\<rparr>)"
  by (simp add: pre_noise_def Let_def spec_linear_def spec_product_def)

text \<open>
  Claim C1. For a system of the base table, the throughput before noise is the product,
  taken left to right, of the base constant, the thread factor \<open>1 + (num_threads - 1) * k\<close>,
  the locality factor, the contention factor and the degradation factor. For ALock the
  contention factor is 1.2, 1.0, 0.85 for high, medium, low; for MCS and Spin it is
  strictly larger for low than for medium, and for medium than for high.
\<close>

theorem throughput_is_product:
  assumes "map_of spec_base system = Some b"
      and "map_of spec_thread_slope system = Some k"
  shows "(let L = pre_noise rnd system num_threads num_nodes contention locality in
           base_throughput L = b \<and>
           thread_factor L = spec_linear rnd (num_threads - 1) k \<and>
           throughput L = spec_product rnd b (thread_factor L) (locality_factor L)
                            (contention_factor L) (degradation L)) \<and>
         (\<forall>c. system = ''ALock'' \<and> map_of spec_alock_contention contention = Some c \<longrightarrow>
            contention_factor (pre_noise rnd system num_threads num_nodes contention locality)
              = float_lit rnd c) \<and>
         ((system = ''MCS'' \<or> system = ''Spin'') \<and> (rnd = exact \<or> rnd = binary64) \<longrightarrow>
            contention_factor (pre_noise rnd system num_threads num_nodes ''medium'' locality)
              < contention_factor (pre_noise rnd system num_threads num_nodes ''low'' locality) \<and>
            contention_factor (pre_noise rnd system num_threads num_nodes ''high'' locality)
              < contention_factor (pre_noise rnd system num_threads num_nodes ''medium'' locality))"
proof -
  consider (A) "system = ''ALock''" "b = 500000" | (M) "system = ''MCS''" "b = 200000"
    | (S) "system = ''Spin''" "b = 150000"
    using sys_cases [OF assms(1)] by blast
  then show ?thesis
  proof cases
    case A
    with assms(2) have k: "k = 0.15" by (simp add: spec_thread_slope_def)
    have "map_of spec_alock_contention contention = Some c \<Longrightarrow>
            (if contention = ''high'' then float_lit rnd 1.2
             else if contention = ''medium'' then float_lit rnd 1.0 else float_lit rnd 0.85)
            = float_lit rnd c" for c
      unfolding spec_alock_contention_def
      by (auto split: if_splits intro!: arg_cong [where f = "float_lit rnd"])
    then show ?thesis unfolding A k by (simp add: pre_noise_ALock Let_def)
  next
    case M
    with assms(2) have k: "k = 0.12" by (simp add: spec_thread_slope_def)
    have "rnd = exact \<or> rnd = binary64 \<Longrightarrow>
            float_lit rnd 0.9 < float_lit rnd 1.0 \<and> float_lit rnd 0.6 < float_lit rnd 0.9"
      using float_lit_order [of rnd] by blast
    then show ?thesis unfolding M k by (simp add: pre_noise_MCS Let_def)
  next
    case S
    with assms(2) have k: "k = 0.08" by (simp add: spec_thread_slope_def)
    have "rnd = exact \<or> rnd = binary64 \<Longrightarrow>
            float_lit rnd 0.7 < float_lit rnd 0.9 \<and> float_lit rnd 0.4 < float_lit rnd 0.7"
      using float_lit_order [of rnd] by blast
    then show ?thesis unfolding S k by (simp add: pre_noise_Spin Let_def)
  qed
qed

theorem throughput_is_product_witness:
  "map_of spec_base ''MCS'' = Some 200000 \<and> map_of spec_thread_slope ''MCS'' = Some 0.12 \<and>
   throughput (pre_noise binary64 ''MCS'' 12 20 ''low'' 95) =
     spec_product binary64 200000 (spec_linear binary64 11 0.12)
       (locality_factor (pre_noise binary64 ''MCS'' 12 20 ''low'' 95))
       (contention_factor (pre_noise binary64 ''MCS'' 12 20 ''low'' 95))
       (degradation (pre_noise binary64 ''MCS'' 12 20 ''low'' 95)) \<and>
   contention_factor (pre_noise binary64 ''MCS'' 12 20 ''medium'' 95)
     < contention_factor (pre_noise binary64 ''MCS'' 12 20 ''low'' 95)"
proof -
  have b: "map_of spec_base ''MCS'' = Some 200000" by (simp add: spec_base_def)
  have k: "map_of spec_thread_slope ''MCS'' = Some 0.12" by (simp add: spec_thread_slope_def)
  show ?thesis
    using throughput_is_product [OF b k, of binary64 12 20 "''low''" 95] b k
    by (simp add: Let_def)
qed

text \<open>
  Claim C2. Whatever the parameters and whatever float the generator draws, the value
  returned is the throughput before noise times the draw, rounded, and clamped to zero
  from below: the product itself when that is positive, and 0 otherwise. So it is at
  least 0. The call takes exactly one draw from the generator.
\<close>

theorem throughput_clamped_at_zero:
  "generate_synthetic_throughput rnd normal system num_threads num_nodes contention locality g =
     (max 0 (fmul rnd
               (throughput (pre_noise rnd system num_threads num_nodes contention locality))
               (fst (normal g))),
      snd (normal g)) \<and>
   fst (generate_synthetic_throughput rnd normal system num_threads num_nodes contention
          locality g) =
     (if 0 < fmul rnd
               (throughput (pre_noise rnd system num_threads num_nodes contention locality))
               (fst (normal g))
      then fmul rnd
             (throughput (pre_noise rnd system num_threads num_nodes contention locality))
             (fst (normal g))
      else 0) \<and>
   0 \<le> fst (generate_synthetic_throughput rnd normal system num_threads num_nodes
              contention locality g)"
  by (simp add: generate_synthetic_throughput_def Let_def max_def split: prod.split)

text \<open>
  Claim C3. For a system of the tables, the locality factor is \<open>1 + (locality - 85) * m\<close>
  below 100 and the override constant at 100. For MCS at 100 it is 0.1, which is not the
  value 1.15 of the linear rule.
\<close>

theorem locality_factor_rule:
  assumes "map_of spec_locality_slope system = Some m"
      and "map_of spec_locality_override system = Some c"
  shows "(locality < 100 \<longrightarrow>
            locality_factor (pre_noise rnd system num_threads num_nodes contention locality)
              = spec_linear rnd (locality - 85) m) \<and>
         (locality = 100 \<longrightarrow>
            locality_factor (pre_noise rnd system num_threads num_nodes contention locality)
              = float_lit rnd c) \<and>
         locality_factor (pre_noise rnd ''MCS'' num_threads num_nodes contention 100)
           = float_lit rnd 0.1 \<and>
         (rnd = exact \<or> rnd = binary64 \<longrightarrow>
            spec_linear rnd (100 - 85) 0.01 = float_lit rnd 1.15 \<and>
            float_lit rnd 0.1 \<noteq> float_lit rnd 1.15)"
proof -
  have "system = ''ALock'' \<and> m = 0.02 \<or> system = ''MCS'' \<and> m = 0.01 \<or>
        system = ''Spin'' \<and> m = 0.005"
    using assms(1) unfolding spec_locality_slope_def by (simp split: if_splits)
  then consider (A) "system = ''ALock''" "m = 0.02" | (M) "system = ''MCS''" "m = 0.01"
    | (S) "system = ''Spin''" "m = 0.005"
    by blast
  then have main: "locality_factor (pre_noise rnd system num_threads num_nodes contention locality)
            = (if locality < 100 then spec_linear rnd (locality - 85) m else float_lit rnd c)"
  proof cases
    case A
    with assms(2) have c: "c = 1.3" by (simp add: spec_locality_override_def)
    show ?thesis unfolding A c by (simp add: pre_noise_ALock Let_def)
  next
    case M
    with assms(2) have c: "c = 0.1" by (simp add: spec_locality_override_def)
    show ?thesis unfolding M c by (simp add: pre_noise_MCS Let_def)
  next
    case S
    with assms(2) have c: "c = 0.05" by (simp add: spec_locality_override_def)
    show ?thesis unfolding S c by (simp add: pre_noise_Spin Let_def)
  qed
  have mcs: "locality_factor (pre_noise rnd ''MCS'' num_threads num_nodes contention 100)
           = float_lit rnd 0.1"
    by (simp add: pre_noise_MCS Let_def)
  have b1: "spec_linear binary64 (100 - 85) 0.01 = float_lit binary64 1.15" by code_simp
  have b2: "float_lit binary64 0.1 \<noteq> float_lit binary64 1.15" by code_simp
  have e1: "spec_linear exact (100 - 85) 0.01 = float_lit exact 1.15"
    by (simp add: spec_linear_def fadd_def fmul_def float_lit_def float_of_int_def exact_def)
  have e2: "float_lit exact 0.1 \<noteq> float_lit exact 1.15"
    by (simp add: float_lit_def exact_def)
  from main mcs b1 b2 e1 e2 show ?thesis by auto
qed

theorem locality_factor_rule_witness:
  "map_of spec_locality_slope ''MCS'' = Some 0.01 \<and>
   map_of spec_locality_override ''MCS'' = Some 0.1 \<and>
   locality_factor (pre_noise binary64 ''MCS'' 2 5 ''high'' 95) = spec_linear binary64 10 0.01 \<and>
   locality_factor (pre_noise binary64 ''MCS'' 2 5 ''high'' 100) = float_lit binary64 0.1 \<and>
   float_lit binary64 0.1 \<noteq> float_lit binary64 1.15"
proof -
  have m: "map_of spec_locality_slope ''MCS'' = Some 0.01" by (simp add: spec_locality_slope_def)
  have c: "map_of spec_locality_override ''MCS'' = Some 0.1"
    by (simp add: spec_locality_override_def)
  show ?thesis
    using locality_factor_rule [OF m c, of 95 binary64 2 5 "''high''"]
          locality_factor_rule [OF m c, of 100 binary64 2 5 "''high''"] m c
    by simp
qed

lemma knee_cases:
  assumes "map_of spec_knee system = Some kn" and "map_of spec_decay_rate system = Some r"
  shows "system = ''ALock'' \<and> kn = 100 \<and> r = 1 / 1000 \<or>
         system = ''MCS'' \<and> kn = 80 \<and> r = 2 / 1000 \<or>
         system = ''Spin'' \<and> kn = 40 \<and> r = 3 / 1000"
  using assms unfolding spec_knee_def spec_decay_rate_def by (auto split: if_splits)

text \<open>
  Claim C4. For a system of the tables, the degradation factor is exactly 1.0 while
  \<open>num_threads * num_nodes\<close> is at most the knee, the knee included, and
  \<open>1.0 - (total - knee) * rate\<close> above it. Nothing clamps it from below: for ALock with
  12 threads on 100 nodes it is negative. For ALock with 12 threads on 5 nodes it is 1.
\<close>

theorem degradation_rule:
  assumes "map_of spec_knee system = Some kn"
      and "map_of spec_decay_rate system = Some r"
  shows "(num_threads * num_nodes \<le> kn \<longrightarrow>
            degradation (pre_noise rnd system num_threads num_nodes contention locality)
              = float_lit rnd 1.0) \<and>
         (kn < num_threads * num_nodes \<longrightarrow>
            degradation (pre_noise rnd system num_threads num_nodes contention locality)
              = fsub rnd (float_lit rnd 1.0)
                  (fmul rnd (float_of_int rnd (num_threads * num_nodes - kn)) (float_lit rnd r))) \<and>
         (rnd = exact \<or> rnd = binary64 \<longrightarrow>
            float_lit rnd 1.0 = 1 \<and>
            degradation (pre_noise rnd ''ALock'' 12 5 contention locality) = 1 \<and>
            degradation (pre_noise rnd ''ALock'' 12 100 contention locality) < 0)"
proof -
  consider (A) "system = ''ALock''" "kn = 100" "r = 1 / 1000"
    | (M) "system = ''MCS''" "kn = 80" "r = 2 / 1000"
    | (S) "system = ''Spin''" "kn = 40" "r = 3 / 1000"
    using knee_cases [OF assms] by blast
  then have main:
    "degradation (pre_noise rnd system num_threads num_nodes contention locality) =
       (if kn < num_threads * num_nodes
        then fsub rnd (float_lit rnd 1.0)
               (fmul rnd (float_of_int rnd (num_threads * num_nodes - kn)) (float_lit rnd r))
        else float_lit rnd 1.0)"
  proof cases
    case A
    show ?thesis unfolding A by (simp add: pre_noise_ALock Let_def)
  next
    case M
    show ?thesis unfolding M by (simp add: pre_noise_MCS Let_def)
  next
    case S
    show ?thesis unfolding S by (simp add: pre_noise_Spin Let_def)
  qed
  have ex: "rnd = exact \<or> rnd = binary64 \<longrightarrow>
            float_lit rnd 1.0 = 1 \<and>
            degradation (pre_noise rnd ''ALock'' 12 5 contention locality) = 1 \<and>
            degradation (pre_noise rnd ''ALock'' 12 100 contention locality) < 0"
  proof
    assume r: "rnd = exact \<or> rnd = binary64"
    have one: "float_lit rnd 1 = 1" using r by (rule float_lit_one)
    have "fsub binary64 (float_lit binary64 1)
            (fmul binary64 (float_of_int binary64 1100) (float_lit binary64 (1 / 1000))) < 0"
      by code_simp
    moreover have "fsub exact (float_lit exact 1)
            (fmul exact (float_of_int exact 1100) (float_lit exact (1 / 1000))) < 0"
      by (simp add: fsub_def fmul_def float_of_int_def float_lit_def exact_def)
    ultimately have neg: "fsub rnd (float_lit rnd 1)
            (fmul rnd (float_of_int rnd 1100) (float_lit rnd (1 / 1000))) < 0"
      using r by blast
    from one neg show "float_lit rnd 1.0 = 1 \<and>
            degradation (pre_noise rnd ''ALock'' 12 5 contention locality) = 1 \<and>
            degradation (pre_noise rnd ''ALock'' 12 100 contention locality) < 0"
      by (simp add: pre_noise_ALock Let_def)
  qed
  from main ex show ?thesis by simp
qed

theorem degradation_rule_witness:
  "map_of spec_knee ''Spin'' = Some 40 \<and> map_of spec_decay_rate ''Spin'' = Some 0.003 \<and>
   degradation (pre_noise binary64 ''Spin'' 8 5 ''low'' 85) = float_lit binary64 1.0 \<and>
   degradation (pre_noise binary64 ''Spin'' 12 20 ''low'' 85)
     = fsub binary64 (float_lit binary64 1.0)
         (fmul binary64 (float_of_int binary64 200) (float_lit binary64 0.003)) \<and>
   degradation (pre_noise binary64 ''ALock'' 12 5 ''low'' 85) = 1"
proof -
  have k: "map_of spec_knee ''Spin'' = Some 40" by (simp add: spec_knee_def)
  have r: "map_of spec_decay_rate ''Spin'' = Some 0.003" by (simp add: spec_decay_rate_def)
  show ?thesis
    using degradation_rule [OF k r, of 8 5 binary64 "''low''" 85]
          degradation_rule [OF k r, of 12 20 binary64 "''low''" 85] k r
    by simp
qed

section \<open>Roundings met on the grid\<close>

lemma b64_1: "binary64 1 = 1"
  by (rule binary64_eqI [where m = 4503599627370496 and e = "-52"]) (simp_all add: pow2_def)

lemma b64_2: "binary64 (1 / 1000) = 1152921504606847 / 1152921504606846976"
  by (rule binary64_eqI [where m = 4611686018427388 and e = "-62"]) (simp_all add: pow2_def)

lemma b64_3: "binary64 20 = 20"
  by (rule binary64_eqI [where m = 5629499534213120 and e = "-48"]) (simp_all add: pow2_def)

lemma b64_4: "binary64 (5764607523034235 / 288230376151711744) = 5764607523034235 / 288230376151711744"
  by (rule binary64_eqI [where m = 5764607523034235 and e = "-58"]) (simp_all add: pow2_def)

lemma b64_5: "binary64 (282465768628677509 / 288230376151711744) = 2206763817411543 / 2251799813685248"
  by (rule binary64_eqI [where m = 8827055269646172 and e = "-53"]) (simp_all add: pow2_def)

lemma b64_6: "binary64 60 = 60"
  by (rule binary64_eqI [where m = 8444249301319680 and e = "-47"]) (simp_all add: pow2_def)

lemma b64_7: "binary64 (17293822569102705 / 288230376151711744) = 1080863910568919 / 18014398509481984"
  by (rule binary64_eqI [where m = 8646911284551352 and e = "-57"]) (simp_all add: pow2_def)

lemma b64_8: "binary64 (16933534598913065 / 18014398509481984) = 2116691824864133 / 2251799813685248"
  by (rule binary64_eqI [where m = 8466767299456532 and e = "-53"]) (simp_all add: pow2_def)

lemma b64_9: "binary64 100 = 100"
  by (rule binary64_eqI [where m = 7036874417766400 and e = "-46"]) (simp_all add: pow2_def)

lemma b64_10: "binary64 (28823037615171175 / 288230376151711744) = 3602879701896397 / 36028797018963968"
  by (rule binary64_eqI [where m = 7205759403792794 and e = "-56"]) (simp_all add: pow2_def)

lemma b64_11: "binary64 (32425917317067571 / 36028797018963968) = 8106479329266893 / 9007199254740992"
  by (rule binary64_eqI [where m = 8106479329266893 and e = "-53"]) (simp_all add: pow2_def)

lemma b64_12: "binary64 140 = 140"
  by (rule binary64_eqI [where m = 4925812092436480 and e = "-45"]) (simp_all add: pow2_def)

lemma b64_13: "binary64 (40352252661239645 / 288230376151711744) = 1261007895663739 / 9007199254740992"
  by (rule binary64_eqI [where m = 5044031582654956 and e = "-55"]) (simp_all add: pow2_def)

lemma b64_14: "binary64 (7746191359077253 / 9007199254740992) = 7746191359077253 / 9007199254740992"
  by (rule binary64_eqI [where m = 7746191359077253 and e = "-53"]) (simp_all add: pow2_def)

lemma b64_15: "binary64 (1 / 500) = 1152921504606847 / 576460752303423488"
  by (rule binary64_eqI [where m = 4611686018427388 and e = "-61"]) (simp_all add: pow2_def)

lemma b64_16: "binary64 (5764607523034235 / 144115188075855872) = 5764607523034235 / 144115188075855872"
  by (rule binary64_eqI [where m = 5764607523034235 and e = "-57"]) (simp_all add: pow2_def)

lemma b64_17: "binary64 (138350580552821637 / 144115188075855872) = 1080863910568919 / 1125899906842624"
  by (rule binary64_eqI [where m = 8646911284551352 and e = "-53"]) (simp_all add: pow2_def)

lemma b64_18: "binary64 40 = 40"
  by (rule binary64_eqI [where m = 5629499534213120 and e = "-47"]) (simp_all add: pow2_def)

lemma b64_19: "binary64 (5764607523034235 / 72057594037927936) = 5764607523034235 / 72057594037927936"
  by (rule binary64_eqI [where m = 5764607523034235 and e = "-56"]) (simp_all add: pow2_def)

lemma b64_20: "binary64 (66292986514893701 / 72057594037927936) = 8286623314361713 / 9007199254740992"
  by (rule binary64_eqI [where m = 8286623314361713 and e = "-53"]) (simp_all add: pow2_def)

lemma b64_21: "binary64 80 = 80"
  by (rule binary64_eqI [where m = 5629499534213120 and e = "-46"]) (simp_all add: pow2_def)

lemma b64_22: "binary64 (5764607523034235 / 36028797018963968) = 5764607523034235 / 36028797018963968"
  by (rule binary64_eqI [where m = 5764607523034235 and e = "-55"]) (simp_all add: pow2_def)

lemma b64_23: "binary64 (30264189495929733 / 36028797018963968) = 7566047373982433 / 9007199254740992"
  by (rule binary64_eqI [where m = 7566047373982433 and e = "-53"]) (simp_all add: pow2_def)

lemma b64_24: "binary64 120 = 120"
  by (rule binary64_eqI [where m = 8444249301319680 and e = "-46"]) (simp_all add: pow2_def)

lemma b64_25: "binary64 (17293822569102705 / 72057594037927936) = 1080863910568919 / 4503599627370496"
  by (rule binary64_eqI [where m = 8646911284551352 and e = "-55"]) (simp_all add: pow2_def)

lemma b64_26: "binary64 (3422735716801577 / 4503599627370496) = 3422735716801577 / 4503599627370496"
  by (rule binary64_eqI [where m = 6845471433603154 and e = "-53"]) (simp_all add: pow2_def)

lemma b64_27: "binary64 160 = 160"
  by (rule binary64_eqI [where m = 5629499534213120 and e = "-45"]) (simp_all add: pow2_def)

lemma b64_28: "binary64 (5764607523034235 / 18014398509481984) = 5764607523034235 / 18014398509481984"
  by (rule binary64_eqI [where m = 5764607523034235 and e = "-54"]) (simp_all add: pow2_def)

lemma b64_29: "binary64 (12249790986447749 / 18014398509481984) = 3062447746611937 / 4503599627370496"
  by (rule binary64_eqI [where m = 6124895493223874 and e = "-53"]) (simp_all add: pow2_def)

lemma b64_30: "binary64 (3 / 1000) = 3458764513820541 / 1152921504606846976"
  by (rule binary64_eqI [where m = 6917529027641082 and e = "-61"]) (simp_all add: pow2_def)

lemma b64_31: "binary64 10 = 10"
  by (rule binary64_eqI [where m = 5629499534213120 and e = "-49"]) (simp_all add: pow2_def)

lemma b64_32: "binary64 (17293822569102705 / 576460752303423488) = 1080863910568919 / 36028797018963968"
  by (rule binary64_eqI [where m = 8646911284551352 and e = "-58"]) (simp_all add: pow2_def)

lemma b64_33: "binary64 (34947933108395049 / 36028797018963968) = 4368491638549381 / 4503599627370496"
  by (rule binary64_eqI [where m = 8736983277098762 and e = "-53"]) (simp_all add: pow2_def)

lemma b64_34: "binary64 (17293822569102705 / 144115188075855872) = 1080863910568919 / 9007199254740992"
  by (rule binary64_eqI [where m = 8646911284551352 and e = "-56"]) (simp_all add: pow2_def)

lemma b64_35: "binary64 (7926335344172073 / 9007199254740992) = 7926335344172073 / 9007199254740992"
  by (rule binary64_eqI [where m = 7926335344172073 and e = "-53"]) (simp_all add: pow2_def)

lemma b64_36: "binary64 (51881467707308115 / 288230376151711744) = 3242591731706757 / 18014398509481984"
  by (rule binary64_eqI [where m = 6485183463413514 and e = "-55"]) (simp_all add: pow2_def)

lemma b64_37: "binary64 (14771806777775227 / 18014398509481984) = 3692951694443807 / 4503599627370496"
  by (rule binary64_eqI [where m = 7385903388887614 and e = "-53"]) (simp_all add: pow2_def)

lemma b64_38: "binary64 (51881467707308115 / 144115188075855872) = 3242591731706757 / 9007199254740992"
  by (rule binary64_eqI [where m = 6485183463413514 and e = "-54"]) (simp_all add: pow2_def)

lemma b64_39: "binary64 (5764607523034235 / 9007199254740992) = 5764607523034235 / 9007199254740992"
  by (rule binary64_eqI [where m = 5764607523034235 and e = "-53"]) (simp_all add: pow2_def)

lemma b64_40: "binary64 (17293822569102705 / 36028797018963968) = 1080863910568919 / 2251799813685248"
  by (rule binary64_eqI [where m = 8646911284551352 and e = "-54"]) (simp_all add: pow2_def)

lemma b64_41: "binary64 (1170935903116329 / 2251799813685248) = 1170935903116329 / 2251799813685248"
  by (rule binary64_eqI [where m = 4683743612465316 and e = "-53"]) (simp_all add: pow2_def)

lemma b64_42: "binary64 200 = 200"
  by (rule binary64_eqI [where m = 7036874417766400 and e = "-45"]) (simp_all add: pow2_def)

lemma b64_43: "binary64 (86469112845513525 / 144115188075855872) = 5404319552844595 / 9007199254740992"
  by (rule binary64_eqI [where m = 5404319552844595 and e = "-53"]) (simp_all add: pow2_def)

lemma b64_44: "binary64 (3602879701896397 / 9007199254740992) = 3602879701896397 / 9007199254740992"
  by (rule binary64_eqI [where m = 7205759403792794 and e = "-54"]) (simp_all add: pow2_def)

lemma b64_45: "binary64 (43 / 50) = 7746191359077253 / 9007199254740992"
  by (rule binary64_eqI [where m = 7746191359077253 and e = "-53"]) (simp_all add: pow2_def)

lemma b64_46: "binary64 (17 / 25) = 6124895493223875 / 9007199254740992"
  by (rule binary64_eqI [where m = 6124895493223875 and e = "-53"]) (simp_all add: pow2_def)

lemma b64_47: "binary64 (6799999999999999 / 10000000000000000) = 3062447746611937 / 4503599627370496"
  by (rule binary64_eqI [where m = 6124895493223874 and e = "-53"]) (simp_all add: pow2_def)

lemma b64_48: "binary64 (2 / 5) = 3602879701896397 / 9007199254740992"
  by (rule binary64_eqI [where m = 7205759403792794 and e = "-54"]) (simp_all add: pow2_def)

lemmas binary64_grid = b64_1 b64_2 b64_3 b64_4 b64_5 b64_6 b64_7 b64_8 b64_9 b64_10 b64_11 b64_12 b64_13 b64_14 b64_15 b64_16 b64_17 b64_18 b64_19 b64_20 b64_21 b64_22 b64_23 b64_24 b64_25 b64_26 b64_27 b64_28 b64_29 b64_30 b64_31 b64_32 b64_33 b64_34 b64_35 b64_36 b64_37 b64_38 b64_39 b64_40 b64_41 b64_42 b64_43 b64_44 b64_45 b64_46 b64_47 b64_48

section \<open>The grid keeps the throughput positive\<close>

lemma grid_degradation_binary64:
  assumes "t \<in> set THREADS_PER_NODE" and "n \<in> set NUM_NODES"
  shows "float_lit binary64 0.86 \<le> degradation (pre_noise binary64 ''ALock'' t n c l)"
    and "float_lit binary64 0.6799999999999999 \<le> degradation (pre_noise binary64 ''MCS'' t n c l)"
    and "float_lit binary64 0.4 \<le> degradation (pre_noise binary64 ''Spin'' t n c l)"
  using assms
  by (auto simp: THREADS_PER_NODE_def NUM_NODES_def pre_noise_ALock pre_noise_MCS pre_noise_Spin
        Let_def fsub_def fmul_def float_lit_def float_of_int_def binary64_grid)

lemma grid_degradation_exact:
  assumes "t \<in> set THREADS_PER_NODE" and "n \<in> set NUM_NODES"
  shows "float_lit exact 0.86 \<le> degradation (pre_noise exact ''ALock'' t n c l)"
    and "float_lit exact 0.68 \<le> degradation (pre_noise exact ''MCS'' t n c l)"
    and "float_lit exact 0.4 \<le> degradation (pre_noise exact ''Spin'' t n c l)"
  using assms
  by (auto simp: THREADS_PER_NODE_def NUM_NODES_def pre_noise_ALock pre_noise_MCS pre_noise_Spin
        Let_def fsub_def fmul_def float_lit_def float_of_int_def exact_def)


lemma rnd_sgn:
  assumes "rnd = exact \<or> rnd = binary64"
  shows "sgn (rnd x) = sgn x"
  using assms by (auto simp: exact_def binary64_sgn)

lemma rnd_pos:
  assumes "rnd = exact \<or> rnd = binary64"
  shows "0 < rnd x \<longleftrightarrow> 0 < x"
  using rnd_sgn [OF assms, of x] by (metis sgn_greater)

lemma rnd_neg:
  assumes "rnd = exact \<or> rnd = binary64"
  shows "rnd x < 0 \<longleftrightarrow> x < 0"
  using rnd_sgn [OF assms, of x] by (metis sgn_less)

lemma spec_linear_pos:
  assumes r: "rnd = exact \<or> rnd = binary64" and d: "0 \<le> d" and m: "0 < m"
  shows "0 < spec_linear rnd d m"
proof -
  have "\<not> rnd (of_int d) < 0" using d by (simp add: rnd_neg [OF r])
  then have 1: "0 \<le> rnd (of_int d)" by simp
  have 2: "0 < rnd m" using m by (simp add: rnd_pos [OF r])
  from 1 2 have "0 \<le> rnd (of_int d) * rnd m" by (intro mult_nonneg_nonneg) simp_all
  then have "\<not> rnd (rnd (of_int d) * rnd m) < 0" by (simp add: rnd_neg [OF r])
  then have 3: "0 \<le> rnd (rnd (of_int d) * rnd m)" by simp
  have 4: "0 < rnd 1" by (simp add: rnd_pos [OF r])
  have "0 < rnd 1 + rnd (rnd (of_int d) * rnd m)" by (rule add_pos_nonneg [OF 4 3])
  then have "0 < rnd (rnd 1 + rnd (rnd (of_int d) * rnd m))" by (simp only: rnd_pos [OF r])
  then show ?thesis
    by (simp only: spec_linear_def fadd_def fmul_def float_lit_def float_of_int_def)
qed

lemma spec_product_pos:
  assumes r: "rnd = exact \<or> rnd = binary64"
    and "0 < b" "0 < tf" "0 < lf" "0 < cf" "0 < dg"
  shows "0 < spec_product rnd b tf lf cf dg"
  using assms(2-) by (simp add: spec_product_def fmul_def float_of_int_def rnd_pos [OF r])

lemma float_lit_pos:
  assumes "rnd = exact \<or> rnd = binary64" and "0 < q"
  shows "0 < float_lit rnd q"
  using assms(2) by (simp add: float_lit_def rnd_pos [OF assms(1)])

lemma throughput_pos:
  assumes r: "rnd = exact \<or> rnd = binary64"
    and s: "system \<in> set SYSTEMS" and t: "1 \<le> t" and l: "85 \<le> l"
    and dg: "0 < degradation (pre_noise rnd system t n c l)"
  shows "0 < throughput (pre_noise rnd system t n c l)"
proof -
  have lin: "0 < spec_linear rnd (t - 1) m" if "0 < m" for m
    using r _ that by (rule spec_linear_pos) (use t in simp)
  have loc: "0 < spec_linear rnd (l - 85) m" if "0 < m" for m
    using r _ that by (rule spec_linear_pos) (use l in simp)
  have lit: "0 < float_lit rnd q" if "0 < q" for q
    using r that by (rule float_lit_pos)
  consider "system = ''ALock''" | "system = ''MCS''" | "system = ''Spin''"
    using s by (auto simp: SYSTEMS_def)
  then show ?thesis
  proof cases
    case 1
    with dg show ?thesis
      by (simp add: pre_noise_ALock Let_def spec_product_pos [OF r] lin loc lit)
  next
    case 2
    with dg show ?thesis
      by (simp add: pre_noise_MCS Let_def spec_product_pos [OF r] lin loc lit)
  next
    case 3
    with dg show ?thesis
      by (simp add: pre_noise_Spin Let_def spec_product_pos [OF r] lin loc lit)
  qed
qed

lemma clamp_only_negative_noise:
  assumes r: "rnd = exact \<or> rnd = binary64"
    and T: "0 < throughput (pre_noise rnd system t n c l)"
  shows "fst (generate_synthetic_throughput rnd normal system t n c l g) =
           (if fst (normal g) < 0 then 0
            else fmul rnd (throughput (pre_noise rnd system t n c l)) (fst (normal g)))"
proof -
  define T where "T = throughput (pre_noise rnd system t n c l)"
  define z where "z = fst (normal g)"
  have g: "fst (generate_synthetic_throughput rnd normal system t n c l g) = max 0 (rnd (T * z))"
    by (simp add: generate_synthetic_throughput_def Let_def T_def z_def fmul_def
          split: prod.split)
  have "0 < T" using T by (simp add: T_def)
  then have "T * z < 0 \<longleftrightarrow> z < 0" by (simp add: mult_less_0_iff)
  then have "rnd (T * z) < 0 \<longleftrightarrow> z < 0" by (simp add: rnd_neg [OF r])
  then have "max 0 (rnd (T * z)) = (if z < 0 then 0 else rnd (T * z))"
    by (auto simp: max_def)
  with g show ?thesis by (simp add: T_def z_def fmul_def)
qed

text \<open>
  Claim C10, as amended. Inside the grid of the script the degradation factor is at least
  the float 0.86 for ALock and 0.4 for Spin. For MCS it is at least 0.68 in exact
  arithmetic, and in binary64 at least 0.6799999999999999, the float next below 0.68. So
  the throughput before noise is positive, and the clamp changes the value only for a
  negative draw: the result is 0 for a negative draw and the rounded product of
  throughput and draw otherwise.
\<close>

theorem grid_throughput_positive:
  assumes r: "rnd = exact \<or> rnd = binary64"
      and s: "system \<in> set SYSTEMS"
      and t: "num_threads \<in> set THREADS_PER_NODE"
      and n: "num_nodes \<in> set NUM_NODES"
      and l: "locality \<in> set LOCALITY_PERCENTAGES \<or> locality = 100"
  shows "(let L = pre_noise rnd system num_threads num_nodes contention locality in
          (system = ''ALock'' \<longrightarrow> float_lit rnd 0.86 \<le> degradation L) \<and>
          (system = ''MCS'' \<longrightarrow> float_lit rnd 0.6799999999999999 \<le> degradation L) \<and>
          (system = ''MCS'' \<and> rnd = exact \<longrightarrow> float_lit rnd 0.68 \<le> degradation L) \<and>
          (system = ''Spin'' \<longrightarrow> float_lit rnd 0.4 \<le> degradation L) \<and>
          0 < degradation L \<and> 0 < throughput L \<and>
          fst (generate_synthetic_throughput rnd normal system num_threads num_nodes
                 contention locality g)
            = (if fst (normal g) < 0 then 0 else fmul rnd (throughput L) (fst (normal g))))"
proof -
  define L where "L = pre_noise rnd system num_threads num_nodes contention locality"
  have below: "float_lit exact 0.6799999999999999 \<le> float_lit exact 0.68"
    by (simp add: float_lit_def exact_def)
  have A: "float_lit rnd 0.86 \<le> degradation L" if "system = ''ALock''"
    using r that grid_degradation_binary64(1) [OF t n] grid_degradation_exact(1) [OF t n]
    unfolding L_def by blast
  have "float_lit exact 0.6799999999999999
          \<le> degradation (pre_noise exact ''MCS'' num_threads num_nodes contention locality)"
    using below grid_degradation_exact(2) [OF t n] by (rule order_trans)
  then have M: "float_lit rnd 0.6799999999999999 \<le> degradation L" if "system = ''MCS''"
    using r that grid_degradation_binary64(2) [OF t n]
    unfolding L_def by blast
  have Me: "float_lit rnd 0.68 \<le> degradation L" if "system = ''MCS''" "rnd = exact"
    using that grid_degradation_exact(2) [OF t n] unfolding L_def by blast
  have S: "float_lit rnd 0.4 \<le> degradation L" if "system = ''Spin''"
    using r that grid_degradation_binary64(3) [OF t n] grid_degradation_exact(3) [OF t n]
    unfolding L_def by blast
  have lits: "0 < float_lit rnd 0.86" "0 < float_lit rnd 0.6799999999999999"
    "0 < float_lit rnd 0.4"
    by (simp_all add: float_lit_pos [OF r])
  consider "system = ''ALock''" | "system = ''MCS''" | "system = ''Spin''"
    using s by (auto simp: SYSTEMS_def)
  then have dg: "0 < degradation L"
  proof cases
    case 1
    from lits(1) A [OF 1] show ?thesis by (rule less_le_trans)
  next
    case 2
    from lits(2) M [OF 2] show ?thesis by (rule less_le_trans)
  next
    case 3
    from lits(3) S [OF 3] show ?thesis by (rule less_le_trans)
  qed
  have t1: "1 \<le> num_threads" using t by (auto simp: THREADS_PER_NODE_def)
  have l85: "85 \<le> locality" using l by (auto simp: LOCALITY_PERCENTAGES_def)
  have T: "0 < throughput L"
    unfolding L_def using r s t1 l85 dg [unfolded L_def] by (rule throughput_pos)
  have C: "fst (generate_synthetic_throughput rnd normal system num_threads num_nodes
                 contention locality g)
            = (if fst (normal g) < 0 then 0 else fmul rnd (throughput L) (fst (normal g)))"
    unfolding L_def using r T [unfolded L_def] by (rule clamp_only_negative_noise)
  from A M Me S dg T C show ?thesis unfolding L_def [symmetric] Let_def by blast
qed

text \<open>
  Claim C10 as stated fails in binary64: for MCS with 12 threads on 20 nodes, a point of
  the grid, \<open>1.0 - 160 * 0.002\<close> evaluates to a float below the float 0.68.
\<close>

theorem mcs_degradation_below_bound:
  "\<not> (12 \<in> set THREADS_PER_NODE \<and> 20 \<in> set NUM_NODES \<longrightarrow>
      float_lit binary64 0.68 \<le> degradation (pre_noise binary64 ''MCS'' 12 20 ''high'' 85))"
  by (simp add: THREADS_PER_NODE_def NUM_NODES_def pre_noise_MCS Let_def fsub_def fmul_def
        float_lit_def float_of_int_def binary64_grid)


theorem grid_throughput_positive_witness:
  "(binary64 = exact \<or> binary64 = binary64) \<and> ''MCS'' \<in> set SYSTEMS \<and>
   12 \<in> set THREADS_PER_NODE \<and> 20 \<in> set NUM_NODES \<and>
   (85 \<in> set LOCALITY_PERCENTAGES \<or> (85::int) = 100) \<and>
   float_lit binary64 0.6799999999999999
     \<le> degradation (pre_noise binary64 ''MCS'' 12 20 ''high'' 85) \<and>
   0 < throughput (pre_noise binary64 ''MCS'' 12 20 ''high'' 85) \<and>
   fst (generate_synthetic_throughput binary64 negative_normal ''MCS'' 12 20 ''high'' 85 ()) = 0"
  using grid_throughput_positive [where rnd = binary64 and system = "''MCS''"
      and num_threads = 12 and num_nodes = 20 and locality = 85 and contention = "''high''"
      and normal = negative_normal and g = "()"]
  by (simp add: SYSTEMS_def THREADS_PER_NODE_def NUM_NODES_def LOCALITY_PERCENTAGES_def Let_def
        negative_normal_def)

section \<open>What the loops compute\<close>

lemma advance_add: "advance normal m (advance normal n g) = advance normal (n + m) g"
  by (induction n arbitrary: g) simp_all

lemma draws_add:
  "draws normal (n + m) g = draws normal n g @ draws normal m (advance normal n g)"
  by (induction n arbitrary: g) simp_all

lemma length_draws: "length (draws normal n g) = n"
  by (induction n arbitrary: g) simp_all

lemma generate_eq:
  "generate_synthetic_throughput rnd normal system num_threads num_nodes contention locality g =
     (noisy rnd system num_nodes contention locality num_threads (fst (normal g)), snd (normal g))"
  by (simp add: generate_synthetic_throughput_def noisy_def Let_def split: prod.split)

lemma points_eq:
  "points rnd normal system num_nodes contention locality ts (xs, ys) g =
     ((xs @ ts,
       ys @ map (\<lambda>(num_threads, z). noisy rnd system num_nodes contention locality num_threads z)
              (zip ts (draws normal (length ts) g))),
      advance normal (length ts) g)"
  by (induction ts arbitrary: xs ys g) (simp_all add: generate_eq)

lemma points_THREADS:
  "points rnd normal system num_nodes contention locality THREADS_PER_NODE ([], []) g =
     ((THREADS_PER_NODE, curve rnd normal system num_nodes contention locality g),
      advance normal 6 g)"
proof -
  have "length THREADS_PER_NODE = 6" by (simp add: THREADS_PER_NODE_def)
  then show ?thesis by (simp add: points_eq curve_def)
qed

lemma str_int_values:
  "str_int 85 = ''85''" "str_int 90 = ''90''" "str_int 95 = ''95''"
  "str_int 20 = ''20''" "str_int 100 = ''100''" "str_int 1000 = ''1000''"
  by (simp_all add: str_int_def str_nat.simps)

lemma locality_loop_eq:
  "locality_loop rnd normal system color marker num_nodes contention LOCALITY_PERCENTAGES ax g =
     Inr (ax\<lparr>lines := lines ax @
            [\<lparr>xdata = THREADS_PER_NODE,
              ydata = curve rnd normal system num_nodes contention 85 g,
              line_color = color, line_marker = marker, line_style = ''-'', line_width = 2,
              marker_size = 6, marker_edgewidth = 1,
              line_label = (if system = ''ALock'' then Some (system @ '' 85%'') else None)\<rparr>,
             \<lparr>xdata = THREADS_PER_NODE,
              ydata = curve rnd normal system num_nodes contention 90 (advance normal 6 g),
              line_color = color, line_marker = ''x'', line_style = ''--'', line_width = 2,
              marker_size = 6, marker_edgewidth = 2,
              line_label = (if system = ''ALock'' then Some (system @ '' 90%'') else None)\<rparr>,
             \<lparr>xdata = THREADS_PER_NODE,
              ydata = curve rnd normal system num_nodes contention 95 (advance normal 12 g),
              line_color = color, line_marker = ''s'', line_style = '':'', line_width = 2,
              marker_size = 6, marker_edgewidth = 1,
              line_label = (if system = ''ALock'' then Some (system @ '' 95%'') else None)\<rparr>]\<rparr>,
          advance normal 18 g)"
  by (simp add: LOCALITY_PERCENTAGES_def points_THREADS dict_get_def LOCALITY_STYLES_def
        marker_for_def plot_def SYSTEMS_def str_int_values advance_add Let_def)

lemma contention_loop_eq:
  "contention_loop rnd normal system color marker num_nodes [''high'', ''medium'', ''low''] ax g =
     Inr (ax\<lparr>lines := lines ax @
            [\<lparr>xdata = THREADS_PER_NODE,
              ydata = curve rnd normal system num_nodes ''high'' 100 g,
              line_color = color, line_marker = marker, line_style = ''-'', line_width = 2,
              marker_size = 6, marker_edgewidth = 1,
              line_label = (if system = ''ALock'' then Some (system @ '' 20'') else None)\<rparr>,
             \<lparr>xdata = THREADS_PER_NODE,
              ydata = curve rnd normal system num_nodes ''medium'' 100 (advance normal 6 g),
              line_color = color, line_marker = ''x'', line_style = ''--'', line_width = 2,
              marker_size = 6, marker_edgewidth = 2,
              line_label = (if system = ''ALock'' then Some (system @ '' 100'') else None)\<rparr>,
             \<lparr>xdata = THREADS_PER_NODE,
              ydata = curve rnd normal system num_nodes ''low'' 100 (advance normal 12 g),
              line_color = color, line_marker = ''s'', line_style = '':'', line_width = 2,
              marker_size = 6, marker_edgewidth = 1,
              line_label = (if system = ''ALock'' then Some (system @ '' 1000'') else None)\<rparr>]\<rparr>,
          advance normal 18 g)"
  by (simp add: points_THREADS dict_get_def CONTENTION_STYLES_def CONTENTION_LEVELS_def
        marker_for_def plot_def SYSTEMS_def str_int_values advance_add Let_def)

lemma systems_loop_cols1_3_eq:
  "systems_loop_cols1_3 rnd normal num_nodes contention SYSTEMS ax g =
     Inr (ax\<lparr>lines := lines ax @
           [\<lparr>xdata = THREADS_PER_NODE,
             ydata = curve rnd normal ''ALock'' num_nodes contention 85 g,
             line_color = ''#1f77b4'', line_marker = ''s'', line_style = ''-'', line_width = 2,
             marker_size = 6, marker_edgewidth = 1,
             line_label = Some ''ALock 85%''\<rparr>,
           \<lparr>xdata = THREADS_PER_NODE,
             ydata = curve rnd normal ''ALock'' num_nodes contention 90 (advance normal 6 g),
             line_color = ''#1f77b4'', line_marker = ''x'', line_style = ''--'', line_width = 2,
             marker_size = 6, marker_edgewidth = 2,
             line_label = Some ''ALock 90%''\<rparr>,
           \<lparr>xdata = THREADS_PER_NODE,
             ydata = curve rnd normal ''ALock'' num_nodes contention 95 (advance normal 12 g),
             line_color = ''#1f77b4'', line_marker = ''s'', line_style = '':'', line_width = 2,
             marker_size = 6, marker_edgewidth = 1,
             line_label = Some ''ALock 95%''\<rparr>,
           \<lparr>xdata = THREADS_PER_NODE,
             ydata = curve rnd normal ''MCS'' num_nodes contention 85 (advance normal 18 g),
             line_color = ''#ff7f0e'', line_marker = ''x'', line_style = ''-'', line_width = 2,
             marker_size = 6, marker_edgewidth = 1,
             line_label = None\<rparr>,
           \<lparr>xdata = THREADS_PER_NODE,
             ydata = curve rnd normal ''MCS'' num_nodes contention 90 (advance normal 24 g),
             line_color = ''#ff7f0e'', line_marker = ''x'', line_style = ''--'', line_width = 2,
             marker_size = 6, marker_edgewidth = 2,
             line_label = None\<rparr>,
           \<lparr>xdata = THREADS_PER_NODE,
             ydata = curve rnd normal ''MCS'' num_nodes contention 95 (advance normal 30 g),
             line_color = ''#ff7f0e'', line_marker = ''s'', line_style = '':'', line_width = 2,
             marker_size = 6, marker_edgewidth = 1,
             line_label = None\<rparr>,
           \<lparr>xdata = THREADS_PER_NODE,
             ydata = curve rnd normal ''Spin'' num_nodes contention 85 (advance normal 36 g),
             line_color = ''#2ca02c'', line_marker = ''o'', line_style = ''-'', line_width = 2,
             marker_size = 6, marker_edgewidth = 1,
             line_label = None\<rparr>,
           \<lparr>xdata = THREADS_PER_NODE,
             ydata = curve rnd normal ''Spin'' num_nodes contention 90 (advance normal 42 g),
             line_color = ''#2ca02c'', line_marker = ''x'', line_style = ''--'', line_width = 2,
             marker_size = 6, marker_edgewidth = 2,
             line_label = None\<rparr>,
           \<lparr>xdata = THREADS_PER_NODE,
             ydata = curve rnd normal ''Spin'' num_nodes contention 95 (advance normal 48 g),
             line_color = ''#2ca02c'', line_marker = ''s'', line_style = '':'', line_width = 2,
             marker_size = 6, marker_edgewidth = 1,
             line_label = None\<rparr>]\<rparr>,
          advance normal 54 g)"
  by (simp add: SYSTEMS_def dict_get_def SYSTEM_STYLE_COLS1_3_def locality_loop_eq advance_add)

lemma systems_loop_col4_eq:
  "systems_loop_col4 rnd normal num_nodes SYSTEMS ax g =
     Inr (ax\<lparr>lines := lines ax @
           [\<lparr>xdata = THREADS_PER_NODE,
             ydata = curve rnd normal ''ALock'' num_nodes ''high'' 100 g,
             line_color = ''purple'', line_marker = ''o'', line_style = ''-'', line_width = 2,
             marker_size = 6, marker_edgewidth = 1,
             line_label = Some ''ALock 20''\<rparr>,
           \<lparr>xdata = THREADS_PER_NODE,
             ydata = curve rnd normal ''ALock'' num_nodes ''medium'' 100 (advance normal 6 g),
             line_color = ''purple'', line_marker = ''x'', line_style = ''--'', line_width = 2,
             marker_size = 6, marker_edgewidth = 2,
             line_label = Some ''ALock 100''\<rparr>,
           \<lparr>xdata = THREADS_PER_NODE,
             ydata = curve rnd normal ''ALock'' num_nodes ''low'' 100 (advance normal 12 g),
             line_color = ''purple'', line_marker = ''s'', line_style = '':'', line_width = 2,
             marker_size = 6, marker_edgewidth = 1,
             line_label = Some ''ALock 1000''\<rparr>,
           \<lparr>xdata = THREADS_PER_NODE,
             ydata = curve rnd normal ''MCS'' num_nodes ''high'' 100 (advance normal 18 g),
             line_color = ''pink'', line_marker = ''s'', line_style = ''-'', line_width = 2,
             marker_size = 6, marker_edgewidth = 1,
             line_label = None\<rparr>,
           \<lparr>xdata = THREADS_PER_NODE,
             ydata = curve rnd normal ''MCS'' num_nodes ''medium'' 100 (advance normal 24 g),
             line_color = ''pink'', line_marker = ''x'', line_style = ''--'', line_width = 2,
             marker_size = 6, marker_edgewidth = 2,
             line_label = None\<rparr>,
           \<lparr>xdata = THREADS_PER_NODE,
             ydata = curve rnd normal ''MCS'' num_nodes ''low'' 100 (advance normal 30 g),
             line_color = ''pink'', line_marker = ''s'', line_style = '':'', line_width = 2,
             marker_size = 6, marker_edgewidth = 1,
             line_label = None\<rparr>,
           \<lparr>xdata = THREADS_PER_NODE,
             ydata = curve rnd normal ''Spin'' num_nodes ''high'' 100 (advance normal 36 g),
             line_color = ''orange'', line_marker = ''x'', line_style = ''-'', line_width = 2,
             marker_size = 6, marker_edgewidth = 1,
             line_label = None\<rparr>,
           \<lparr>xdata = THREADS_PER_NODE,
             ydata = curve rnd normal ''Spin'' num_nodes ''medium'' 100 (advance normal 42 g),
             line_color = ''orange'', line_marker = ''x'', line_style = ''--'', line_width = 2,
             marker_size = 6, marker_edgewidth = 2,
             line_label = None\<rparr>,
           \<lparr>xdata = THREADS_PER_NODE,
             ydata = curve rnd normal ''Spin'' num_nodes ''low'' 100 (advance normal 48 g),
             line_color = ''orange'', line_marker = ''s'', line_style = '':'', line_width = 2,
             marker_size = 6, marker_edgewidth = 1,
             line_label = None\<rparr>]\<rparr>,
          advance normal 54 g)"
  by (simp add: SYSTEMS_def dict_get_def SYSTEM_STYLE_COL4_def contention_loop_eq advance_add
        del: contention_loop.simps)

lemma lines_cols1_3_eq:
  "lines_cols1_3 rnd normal num_nodes contention g =
           [\<lparr>xdata = THREADS_PER_NODE,
             ydata = curve rnd normal ''ALock'' num_nodes contention 85 g,
             line_color = ''#1f77b4'', line_marker = ''s'', line_style = ''-'', line_width = 2,
             marker_size = 6, marker_edgewidth = 1,
             line_label = Some ''ALock 85%''\<rparr>,
           \<lparr>xdata = THREADS_PER_NODE,
             ydata = curve rnd normal ''ALock'' num_nodes contention 90 (advance normal 6 g),
             line_color = ''#1f77b4'', line_marker = ''x'', line_style = ''--'', line_width = 2,
             marker_size = 6, marker_edgewidth = 2,
             line_label = Some ''ALock 90%''\<rparr>,
           \<lparr>xdata = THREADS_PER_NODE,
             ydata = curve rnd normal ''ALock'' num_nodes contention 95 (advance normal 12 g),
             line_color = ''#1f77b4'', line_marker = ''s'', line_style = '':'', line_width = 2,
             marker_size = 6, marker_edgewidth = 1,
             line_label = Some ''ALock 95%''\<rparr>,
           \<lparr>xdata = THREADS_PER_NODE,
             ydata = curve rnd normal ''MCS'' num_nodes contention 85 (advance normal 18 g),
             line_color = ''#ff7f0e'', line_marker = ''x'', line_style = ''-'', line_width = 2,
             marker_size = 6, marker_edgewidth = 1,
             line_label = None\<rparr>,
           \<lparr>xdata = THREADS_PER_NODE,
             ydata = curve rnd normal ''MCS'' num_nodes contention 90 (advance normal 24 g),
             line_color = ''#ff7f0e'', line_marker = ''x'', line_style = ''--'', line_width = 2,
             marker_size = 6, marker_edgewidth = 2,
             line_label = None\<rparr>,
           \<lparr>xdata = THREADS_PER_NODE,
             ydata = curve rnd normal ''MCS'' num_nodes contention 95 (advance normal 30 g),
             line_color = ''#ff7f0e'', line_marker = ''s'', line_style = '':'', line_width = 2,
             marker_size = 6, marker_edgewidth = 1,
             line_label = None\<rparr>,
           \<lparr>xdata = THREADS_PER_NODE,
             ydata = curve rnd normal ''Spin'' num_nodes contention 85 (advance normal 36 g),
             line_color = ''#2ca02c'', line_marker = ''o'', line_style = ''-'', line_width = 2,
             marker_size = 6, marker_edgewidth = 1,
             line_label = None\<rparr>,
           \<lparr>xdata = THREADS_PER_NODE,
             ydata = curve rnd normal ''Spin'' num_nodes contention 90 (advance normal 42 g),
             line_color = ''#2ca02c'', line_marker = ''x'', line_style = ''--'', line_width = 2,
             marker_size = 6, marker_edgewidth = 2,
             line_label = None\<rparr>,
           \<lparr>xdata = THREADS_PER_NODE,
             ydata = curve rnd normal ''Spin'' num_nodes contention 95 (advance normal 48 g),
             line_color = ''#2ca02c'', line_marker = ''s'', line_style = '':'', line_width = 2,
             marker_size = 6, marker_edgewidth = 1,
             line_label = None\<rparr>]"
  by (simp add: lines_cols1_3_def create_subplot_cols1_3_def systems_loop_cols1_3_eq
        decorate_def new_axes_def)

lemma lines_col4_eq:
  "lines_col4 rnd normal num_nodes g =
           [\<lparr>xdata = THREADS_PER_NODE,
             ydata = curve rnd normal ''ALock'' num_nodes ''high'' 100 g,
             line_color = ''purple'', line_marker = ''o'', line_style = ''-'', line_width = 2,
             marker_size = 6, marker_edgewidth = 1,
             line_label = Some ''ALock 20''\<rparr>,
           \<lparr>xdata = THREADS_PER_NODE,
             ydata = curve rnd normal ''ALock'' num_nodes ''medium'' 100 (advance normal 6 g),
             line_color = ''purple'', line_marker = ''x'', line_style = ''--'', line_width = 2,
             marker_size = 6, marker_edgewidth = 2,
             line_label = Some ''ALock 100''\<rparr>,
           \<lparr>xdata = THREADS_PER_NODE,
             ydata = curve rnd normal ''ALock'' num_nodes ''low'' 100 (advance normal 12 g),
             line_color = ''purple'', line_marker = ''s'', line_style = '':'', line_width = 2,
             marker_size = 6, marker_edgewidth = 1,
             line_label = Some ''ALock 1000''\<rparr>,
           \<lparr>xdata = THREADS_PER_NODE,
             ydata = curve rnd normal ''MCS'' num_nodes ''high'' 100 (advance normal 18 g),
             line_color = ''pink'', line_marker = ''s'', line_style = ''-'', line_width = 2,
             marker_size = 6, marker_edgewidth = 1,
             line_label = None\<rparr>,
           \<lparr>xdata = THREADS_PER_NODE,
             ydata = curve rnd normal ''MCS'' num_nodes ''medium'' 100 (advance normal 24 g),
             line_color = ''pink'', line_marker = ''x'', line_style = ''--'', line_width = 2,
             marker_size = 6, marker_edgewidth = 2,
             line_label = None\<rparr>,
           \<lparr>xdata = THREADS_PER_NODE,
             ydata = curve rnd normal ''MCS'' num_nodes ''low'' 100 (advance normal 30 g),
             line_color = ''pink'', line_marker = ''s'', line_style = '':'', line_width = 2,
             marker_size = 6, marker_edgewidth = 1,
             line_label = None\<rparr>,
           \<lparr>xdata = THREADS_PER_NODE,
             ydata = curve rnd normal ''Spin'' num_nodes ''high'' 100 (advance normal 36 g),
             line_color = ''orange'', line_marker = ''x'', line_style = ''-'', line_width = 2,
             marker_size = 6, marker_edgewidth = 1,
             line_label = None\<rparr>,
           \<lparr>xdata = THREADS_PER_NODE,
             ydata = curve rnd normal ''Spin'' num_nodes ''medium'' 100 (advance normal 42 g),
             line_color = ''orange'', line_marker = ''x'', line_style = ''--'', line_width = 2,
             marker_size = 6, marker_edgewidth = 2,
             line_label = None\<rparr>,
           \<lparr>xdata = THREADS_PER_NODE,
             ydata = curve rnd normal ''Spin'' num_nodes ''low'' 100 (advance normal 48 g),
             line_color = ''orange'', line_marker = ''s'', line_style = '':'', line_width = 2,
             marker_size = 6, marker_edgewidth = 1,
             line_label = None\<rparr>]"
  by (simp add: lines_col4_def create_subplot_col4_def systems_loop_col4_eq
        decorate_def new_axes_def)

lemma create_subplot_cols1_3_eq:
  "create_subplot_cols1_3 rnd normal ax num_nodes contention g =
     Inr (decorate (ax\<lparr>lines := lines ax @ lines_cols1_3 rnd normal num_nodes contention g\<rparr>),
          advance normal 54 g)"
  by (simp add: create_subplot_cols1_3_def systems_loop_cols1_3_eq lines_cols1_3_eq)

lemma create_subplot_col4_eq:
  "create_subplot_col4 rnd normal ax num_nodes g =
     Inr (decorate (ax\<lparr>lines := lines ax @ lines_col4 rnd normal num_nodes g\<rparr>),
          advance normal 54 g)"
  by (simp add: create_subplot_col4_def systems_loop_col4_eq lines_col4_eq)

lemma fresh_axes: "replicate 3 (replicate 4 x) =
    (let row = [x, x, x, x] in [row, row, row])"
  by (simp add: numeral_eq_Suc Let_def)

lemma upt_small: "[0..<4] = [0, 1, 2, 3]" "[0..<3] = [0, 1, 2]"
  by code_simp+

lemma cols_loop_eq:
  "cols_loop rnd normal (py_range 4) (replicate 3 (replicate 4 new_axes), 0, g) =
     Inr (grid_axes rnd normal g, 12, advance normal 648 g)"
  by (simp add: fresh_axes py_range_def py_enumerate_def NUM_NODES_def axes_get_def axes_set_def
        list_get_def labels_def col_titles_def row_titles_def create_subplot_cols1_3_eq
        create_subplot_col4_eq advance_add decorate_def new_axes_def grid_axes_def cell_def
        Let_def upt_small)

lemma nat_below_9: "i < 9 \<Longrightarrow> i = 0 \<or> i = 1 \<or> i = 2 \<or> i = 3 \<or> i = 4 \<or> i = 5 \<or> i = 6 \<or> i = 7 \<or> i = (8::nat)"
  by arith

lemma cols1_3_series:
  assumes "i < 9"
  shows "lines_cols1_3 rnd normal nn con g0 ! i =
     \<lparr>xdata = THREADS_PER_NODE,
      ydata = curve rnd normal (SYSTEMS ! (i div 3)) nn con (LOCALITY_PERCENTAGES ! (i mod 3))
                (advance normal (6 * i) g0),
      line_color = [''#1f77b4'', ''#ff7f0e'', ''#2ca02c''] ! (i div 3),
      line_marker = (if i mod 3 = 0 then [''s'', ''x'', ''o''] ! (i div 3)
                     else if i mod 3 = 1 then ''x'' else ''s''),
      line_style = [''-'', ''--'', '':''] ! (i mod 3),
      line_width = 2, marker_size = 6,
      marker_edgewidth = (if i mod 3 = 1 then 2 else 1),
      line_label = (if i div 3 = 0
                    then Some (''ALock '' @ [''85%'', ''90%'', ''95%''] ! (i mod 3)) else None)\<rparr>"
  using nat_below_9 [OF assms]
  by (elim disjE) (simp_all add: lines_cols1_3_eq SYSTEMS_def LOCALITY_PERCENTAGES_def)

lemma col4_series:
  assumes "i < 9"
  shows "lines_col4 rnd normal nn g0 ! i =
     \<lparr>xdata = THREADS_PER_NODE,
      ydata = curve rnd normal (SYSTEMS ! (i div 3)) nn ([''high'', ''medium'', ''low''] ! (i mod 3)) 100
                (advance normal (6 * i) g0),
      line_color = [''purple'', ''pink'', ''orange''] ! (i div 3),
      line_marker = (if i mod 3 = 0 then [''o'', ''s'', ''x''] ! (i div 3)
                     else if i mod 3 = 1 then ''x'' else ''s''),
      line_style = [''-'', ''--'', '':''] ! (i mod 3),
      line_width = 2, marker_size = 6,
      marker_edgewidth = (if i mod 3 = 1 then 2 else 1),
      line_label = (if i div 3 = 0
                    then Some (''ALock '' @ [''20'', ''100'', ''1000''] ! (i mod 3)) else None)\<rparr>"
  using nat_below_9 [OF assms]
  by (elim disjE) (simp_all add: lines_col4_eq SYSTEMS_def)

lemma length_lines: "length (lines_cols1_3 rnd normal nn con g0) = 9"
  "length (lines_col4 rnd normal nn g0) = 9"
  by (simp_all add: lines_cols1_3_eq lines_col4_eq)

lemma grid_cell:
  assumes "r < 3" and "c < 4"
  shows "grid_axes rnd normal g ! r ! c = cell rnd normal g r c"
  using assms by (simp add: grid_axes_def)

lemma length_grid: "length (grid_axes rnd normal g) = 3"
  "r < 3 \<Longrightarrow> length (grid_axes rnd normal g ! r) = 4"
  "length (concat (grid_axes rnd normal g)) = 12"
proof -
  show "length (grid_axes rnd normal g) = 3" by (simp add: grid_axes_def)
  show "r < 3 \<Longrightarrow> length (grid_axes rnd normal g ! r) = 4" by (simp add: grid_axes_def)
  show "length (concat (grid_axes rnd normal g)) = 12" by (simp add: grid_axes_def upt_small)
qed

lemma create_figure5_grid_eq:
  "create_figure5_grid rnd normal savefig g =
     (case savefig ''fig5_plots/figure5_grid.png'' (grid_axes rnd normal g) of
        Some e \<Rightarrow> Inl e
      | None \<Rightarrow> Inr (''fig5_plots/figure5_grid.png'', grid_axes rnd normal g,
                      advance normal 648 g))"
  by (simp add: create_figure5_grid_def cols_loop_eq Let_def)

section \<open>The grid composer\<close>

text \<open>
  Claim C5. The composer always builds the same array of axes and hands it to
  \<open>savefig\<close>: 3 rows, one per node count 5, 10, 20, of 4 columns, 12 panels in all. Each
  panel holds the 9 series its panel function plots (3 systems times 3 variants) for the
  node count of its row, drawn from the generator state reached after the panels before
  it in column-major order. The labels \<open>(a)\<close> to \<open>(l)\<close> go down column 0 first, then
  column 1, and so on.
\<close>

theorem grid_panels:
  "\<exists>axs. create_figure5_grid rnd normal savefig g =
           (case savefig ''fig5_plots/figure5_grid.png'' axs of
              Some e \<Rightarrow> Inl e
            | None \<Rightarrow> Inr (''fig5_plots/figure5_grid.png'', axs, advance normal 648 g)) \<and>
         length axs = 3 \<and> (\<forall>r<3. length (axs ! r) = 4) \<and> length (concat axs) = 12 \<and>
         (\<forall>r<3. \<forall>c<4.
            lines (axs ! r ! c) =
              (if c < 3
               then lines_cols1_3 rnd normal (NUM_NODES ! r) ([''high'', ''medium'', ''low''] ! c)
                      (advance normal (54 * (3 * c + r)) g)
               else lines_col4 rnd normal (NUM_NODES ! r) (advance normal (54 * (3 * c + r)) g)) \<and>
            length (lines (axs ! r ! c)) = 9 \<and>
            length (lines (axs ! r ! c)) = length SYSTEMS * length LOCALITY_PERCENTAGES \<and>
            texts (axs ! r ! c) = [labels ! (3 * c + r)]) \<and>
         map (\<lambda>k. texts (axs ! (k mod 3) ! (k div 3))) [0..<12] =
           map (\<lambda>l. [l]) labels \<and>
         labels = [''(a)'', ''(b)'', ''(c)'', ''(d)'', ''(e)'', ''(f)'',
                   ''(g)'', ''(h)'', ''(i)'', ''(j)'', ''(k)'', ''(l)''] \<and>
         NUM_NODES = [5, 10, 20]"
proof (intro exI [of _ "grid_axes rnd normal g"] conjI allI impI)
  show "create_figure5_grid rnd normal savefig g =
           (case savefig ''fig5_plots/figure5_grid.png'' (grid_axes rnd normal g) of
              Some e \<Rightarrow> Inl e
            | None \<Rightarrow> Inr (''fig5_plots/figure5_grid.png'', grid_axes rnd normal g,
                            advance normal 648 g))"
    by (rule create_figure5_grid_eq)
  show "length (grid_axes rnd normal g) = 3" by (rule length_grid)
  show "length (grid_axes rnd normal g ! r) = 4" if "r < 3" for r using that by (rule length_grid)
  show "length (concat (grid_axes rnd normal g)) = 12" by (rule length_grid)
  show "NUM_NODES = [5, 10, 20]" by (simp add: NUM_NODES_def)
  show "labels = [''(a)'', ''(b)'', ''(c)'', ''(d)'', ''(e)'', ''(f)'',
                   ''(g)'', ''(h)'', ''(i)'', ''(j)'', ''(k)'', ''(l)'']"
    by (simp add: labels_def)
  have upt12: "[0..<12] = [0, 1, 2, 3, 4, 5, 6, 7, 8, 9, 10, 11]" by code_simp
  show "map (\<lambda>k. texts (grid_axes rnd normal g ! (k mod 3) ! (k div 3))) [0..<12] =
           map (\<lambda>l. [l]) labels"
    by (simp add: upt12 grid_cell cell_def labels_def)
next
  fix r c :: nat
  assume rc: "r < 3" "c < 4"
  show "lines (grid_axes rnd normal g ! r ! c) =
              (if c < 3
               then lines_cols1_3 rnd normal (NUM_NODES ! r) ([''high'', ''medium'', ''low''] ! c)
                      (advance normal (54 * (3 * c + r)) g)
               else lines_col4 rnd normal (NUM_NODES ! r) (advance normal (54 * (3 * c + r)) g))"
    using rc by (simp add: grid_cell cell_def Let_def)
  then show "length (lines (grid_axes rnd normal g ! r ! c)) = 9"
    by (simp add: length_lines)
  then show "length (lines (grid_axes rnd normal g ! r ! c))
               = length SYSTEMS * length LOCALITY_PERCENTAGES"
    by (simp add: SYSTEMS_def LOCALITY_PERCENTAGES_def)
  show "texts (grid_axes rnd normal g ! r ! c) = [labels ! (3 * c + r)]"
    using rc by (simp add: grid_cell cell_def Let_def)
qed

theorem grid_panels_witness:
  "\<exists>axs. create_figure5_grid binary64 unit_normal savefig_ok () =
           Inr (''fig5_plots/figure5_grid.png'', axs, advance unit_normal 648 ()) \<and>
         length axs = 3 \<and> length (axs ! 1) = 4 \<and>
         length (lines (axs ! 1 ! 2)) = 9 \<and> texts (axs ! 1 ! 2) = [''(h)'']"
proof -
  from grid_panels [of binary64 unit_normal savefig_ok "()"]
  obtain axs where
    1: "create_figure5_grid binary64 unit_normal savefig_ok () =
           (case savefig_ok ''fig5_plots/figure5_grid.png'' axs of
              Some e \<Rightarrow> Inl e
            | None \<Rightarrow> Inr (''fig5_plots/figure5_grid.png'', axs, advance unit_normal 648 ()))"
    and 2: "length axs = 3" and 3: "\<forall>r<3. length (axs ! r) = 4"
    and 4: "\<forall>r<3. \<forall>c<4.
            lines (axs ! r ! c) =
              (if c < 3
               then lines_cols1_3 binary64 unit_normal (NUM_NODES ! r)
                      ([''high'', ''medium'', ''low''] ! c)
                      (advance unit_normal (54 * (3 * c + r)) ())
               else lines_col4 binary64 unit_normal (NUM_NODES ! r)
                      (advance unit_normal (54 * (3 * c + r)) ())) \<and>
            length (lines (axs ! r ! c)) = 9 \<and>
            length (lines (axs ! r ! c)) = length SYSTEMS * length LOCALITY_PERCENTAGES \<and>
            texts (axs ! r ! c) = [labels ! (3 * c + r)]"
    by blast
  have "(1::nat) < 3" by simp
  with 3 have a: "length (axs ! 1) = 4" by blast
  have "(1::nat) < 3" "(2::nat) < 4" by simp_all
  with 4 have "length (lines (axs ! 1 ! 2)) = 9 \<and> texts (axs ! 1 ! 2) = [labels ! (3 * 2 + 1)]"
    by blast
  then have b: "length (lines (axs ! 1 ! 2)) = 9" "texts (axs ! 1 ! 2) = [''(h)'']"
    by (simp_all add: labels_def)
  from 1 have c: "create_figure5_grid binary64 unit_normal savefig_ok () =
           Inr (''fig5_plots/figure5_grid.png'', axs, advance unit_normal 648 ())"
    by (simp add: savefig_ok_def)
  from c 2 a b show ?thesis by blast
qed

lemma grid_lines:
  assumes "r < 3" and "c < 4"
  shows "lines (grid_axes rnd normal g ! r ! c) =
           (if c < 3
            then lines_cols1_3 rnd normal (NUM_NODES ! r) ([''high'', ''medium'', ''low''] ! c)
                   (advance normal (54 * (3 * c + r)) g)
            else lines_col4 rnd normal (NUM_NODES ! r) (advance normal (54 * (3 * c + r)) g))"
  using assms by (simp add: grid_cell cell_def Let_def)

lemma grid_series:
  assumes "r < 3" and "c < 4" and "i < 9"
  shows "lines (grid_axes rnd normal g ! r ! c) ! i =
     \<lparr>xdata = THREADS_PER_NODE,
      ydata = curve rnd normal (SYSTEMS ! (i div 3)) (NUM_NODES ! r)
                ([''high'', ''medium'', ''low''] ! (if c < 3 then c else i mod 3))
                (if c < 3 then LOCALITY_PERCENTAGES ! (i mod 3) else 100)
                (advance normal (54 * (3 * c + r) + 6 * i) g),
      line_color = (if c < 3 then [''#1f77b4'', ''#ff7f0e'', ''#2ca02c'']
                    else [''purple'', ''pink'', ''orange'']) ! (i div 3),
      line_marker = (if i mod 3 = 0
                     then (if c < 3 then [''s'', ''x'', ''o''] else [''o'', ''s'', ''x'']) ! (i div 3)
                     else if i mod 3 = 1 then ''x'' else ''s''),
      line_style = [''-'', ''--'', '':''] ! (i mod 3),
      line_width = 2, marker_size = 6,
      marker_edgewidth = (if i mod 3 = 1 then 2 else 1),
      line_label = (if i div 3 = 0
                    then Some (''ALock '' @ (if c < 3 then [''85%'', ''90%'', ''95%'']
                                             else [''20'', ''100'', ''1000'']) ! (i mod 3))
                    else None)\<rparr>"
  using assms by (simp add: grid_lines cols1_3_series col4_series advance_add)


text \<open>
  Claim C7, as amended. In every panel the series at position \<open>i\<close> is the curve of system
  \<open>SYSTEMS ! (i div 3)\<close>, and it carries a label exactly when that system is the first one,
  ALock. So a panel has three labelled series, one per variant value and all of them
  ALock's; the series of MCS and Spin carry no label.
\<close>

theorem legend_labels:
  "\<exists>axs. create_figure5_grid rnd normal savefig g =
           (case savefig ''fig5_plots/figure5_grid.png'' axs of
              Some e \<Rightarrow> Inl e
            | None \<Rightarrow> Inr (''fig5_plots/figure5_grid.png'', axs, advance normal 648 g)) \<and>
         (\<forall>r<3. \<forall>c<4. \<forall>i<9.
            ydata (lines (axs ! r ! c) ! i) =
              curve rnd normal (SYSTEMS ! (i div 3)) (NUM_NODES ! r)
                ([''high'', ''medium'', ''low''] ! (if c < 3 then c else i mod 3))
                (if c < 3 then LOCALITY_PERCENTAGES ! (i mod 3) else 100)
                (advance normal (54 * (3 * c + r) + 6 * i) g) \<and>
            (line_label (lines (axs ! r ! c) ! i) \<noteq> None \<longleftrightarrow>
               SYSTEMS ! (i div 3) = SYSTEMS ! 0)) \<and>
         (\<forall>r<3. \<forall>c<4.
            map line_label (lines (axs ! r ! c)) =
              (if c < 3
               then [Some ''ALock 85%'', Some ''ALock 90%'', Some ''ALock 95%'']
               else [Some ''ALock 20'', Some ''ALock 100'', Some ''ALock 1000''])
              @ replicate 6 None)"
proof (intro exI [of _ "grid_axes rnd normal g"] conjI allI impI)
  show "create_figure5_grid rnd normal savefig g =
           (case savefig ''fig5_plots/figure5_grid.png'' (grid_axes rnd normal g) of
              Some e \<Rightarrow> Inl e
            | None \<Rightarrow> Inr (''fig5_plots/figure5_grid.png'', grid_axes rnd normal g,
                            advance normal 648 g))"
    by (rule create_figure5_grid_eq)
next
  fix r c i :: nat
  assume a: "r < 3" "c < 4" "i < 9"
  show "ydata (lines (grid_axes rnd normal g ! r ! c) ! i) =
              curve rnd normal (SYSTEMS ! (i div 3)) (NUM_NODES ! r)
                ([''high'', ''medium'', ''low''] ! (if c < 3 then c else i mod 3))
                (if c < 3 then LOCALITY_PERCENTAGES ! (i mod 3) else 100)
                (advance normal (54 * (3 * c + r) + 6 * i) g)"
    by (simp add: grid_series [OF a])
  have "i div 3 = 0 \<longleftrightarrow> SYSTEMS ! (i div 3) = SYSTEMS ! 0"
    using nat_below_9 [OF a(3)] by (elim disjE) (simp_all add: SYSTEMS_def)
  then show "line_label (lines (grid_axes rnd normal g ! r ! c) ! i) \<noteq> None \<longleftrightarrow>
               SYSTEMS ! (i div 3) = SYSTEMS ! 0"
    by (simp add: grid_series [OF a])
next
  fix r c :: nat
  assume a: "r < 3" "c < 4"
  show "map line_label (lines (grid_axes rnd normal g ! r ! c)) =
              (if c < 3
               then [Some ''ALock 85%'', Some ''ALock 90%'', Some ''ALock 95%'']
               else [Some ''ALock 20'', Some ''ALock 100'', Some ''ALock 1000''])
              @ replicate 6 None"
    using a by (simp add: grid_lines lines_cols1_3_eq lines_col4_eq numeral_eq_Suc)
qed

theorem legend_labels_witness:
  "\<exists>axs. create_figure5_grid binary64 unit_normal savefig_ok () =
           Inr (''fig5_plots/figure5_grid.png'', axs, advance unit_normal 648 ()) \<and>
         line_label (lines (axs ! 0 ! 1) ! 2) \<noteq> None \<and>
         line_label (lines (axs ! 0 ! 1) ! 3) = None \<and>
         map line_label (lines (axs ! 2 ! 3)) =
           [Some ''ALock 20'', Some ''ALock 100'', Some ''ALock 1000'',
            None, None, None, None, None, None]"
proof -
  from legend_labels [of binary64 unit_normal savefig_ok "()"]
  obtain axs where
    1: "create_figure5_grid binary64 unit_normal savefig_ok () =
           (case savefig_ok ''fig5_plots/figure5_grid.png'' axs of
              Some e \<Rightarrow> Inl e
            | None \<Rightarrow> Inr (''fig5_plots/figure5_grid.png'', axs, advance unit_normal 648 ()))"
    and 2: "\<forall>r<3. \<forall>c<4. \<forall>i<9.
            ydata (lines (axs ! r ! c) ! i) =
              curve binary64 unit_normal (SYSTEMS ! (i div 3)) (NUM_NODES ! r)
                ([''high'', ''medium'', ''low''] ! (if c < 3 then c else i mod 3))
                (if c < 3 then LOCALITY_PERCENTAGES ! (i mod 3) else 100)
                (advance unit_normal (54 * (3 * c + r) + 6 * i) ()) \<and>
            (line_label (lines (axs ! r ! c) ! i) \<noteq> None \<longleftrightarrow>
               SYSTEMS ! (i div 3) = SYSTEMS ! 0)"
    and 3: "\<forall>r<3. \<forall>c<4.
            map line_label (lines (axs ! r ! c)) =
              (if c < 3
               then [Some ''ALock 85%'', Some ''ALock 90%'', Some ''ALock 95%'']
               else [Some ''ALock 20'', Some ''ALock 100'', Some ''ALock 1000''])
              @ replicate 6 None"
    by (elim exE conjE)
  from 1 have a: "create_figure5_grid binary64 unit_normal savefig_ok () =
           Inr (''fig5_plots/figure5_grid.png'', axs, advance unit_normal 648 ())"
    by (simp add: savefig_ok_def)
  have b: "line_label (lines (axs ! 0 ! 1) ! 2) \<noteq> None"
    using 2 [rule_format, of 0 1 2] by (simp add: SYSTEMS_def)
  have c: "line_label (lines (axs ! 0 ! 1) ! 3) = None"
    using 2 [rule_format, of 0 1 3] by (simp add: SYSTEMS_def)
  have d: "map line_label (lines (axs ! 2 ! 3)) =
           [Some ''ALock 20'', Some ''ALock 100'', Some ''ALock 1000'',
            None, None, None, None, None, None]"
    using 3 [rule_format, of 2 3] by (simp add: numeral_eq_Suc)
  show ?thesis
    by (rule exI [of _ axs]) (simp only: a b c d simp_thms)
qed

text \<open>
  Claim C7 as stated fails in its second half: a panel of columns 1 to 3 plots one series
  for each of the 9 pairs of a system and a locality, and only the three of ALock are
  labelled. The series of MCS at 85% (position 3, MCS's colour) has no legend entry.
\<close>

theorem legend_entries_not_per_system:
  "map line_label (lines_cols1_3 binary64 unit_normal 5 ''high'' ()) =
     [Some ''ALock 85%'', Some ''ALock 90%'', Some ''ALock 95%'',
      None, None, None, None, None, None] \<and>
   line_color (lines_cols1_3 binary64 unit_normal 5 ''high'' () ! 3) = ''#ff7f0e'' \<and>
   map_of SYSTEM_STYLE_COLS1_3 ''MCS'' = Some (''#ff7f0e'', ''x'', ''--'') \<and>
   length (List.product SYSTEMS LOCALITY_PERCENTAGES) = 9"
  by (simp add: lines_cols1_3_eq SYSTEM_STYLE_COLS1_3_def SYSTEMS_def LOCALITY_PERCENTAGES_def)




section \<open>The entry point and exceptions\<close>




text \<open>
  The proviso on standard output is needed. Where standard output encodes ASCII only,
  the handler's own \<open>print\<close> of the cross mark raises \<open>UnicodeEncodeError\<close>, and that
  exception leaves \<open>main\<close>: after a failure of \<open>savefig\<close>, and also after a success,
  when the \<open>print\<close> of the check mark raises inside the \<open>try\<close> statement first.
\<close>

lemma ascii_marks: "write_ascii ''Generating Figure 5 grid layout...'' = None"
  "write_ascii (replicate 60 CHR ''='') = None"
  "write_ascii (CHR 0x0A # replicate 60 CHR ''='') = None"
  "write_ascii (CHR 0x0A # cross_mark @ line)
     = Some (PyExc UnicodeEncodeError ''ordinal not in range(128)'')"
  "write_ascii (check_mark @ line)
     = Some (PyExc UnicodeEncodeError ''ordinal not in range(128)'')"
  by (simp_all add: write_ascii_def cross_mark_def check_mark_def list_all_iff)

lemma unencodable_mark_escapes_main:
  "main binary64 unit_normal savefig_disk_full write_ascii () =
     ([Print ''Generating Figure 5 grid layout...'', Print (replicate 60 CHR ''='')],
      Raised (PyExc UnicodeEncodeError ''ordinal not in range(128)''))"
  "main binary64 unit_normal savefig_ok write_ascii () =
     ([Print ''Generating Figure 5 grid layout...'', Print (replicate 60 CHR ''=''),
       Print (CHR 0x0A # replicate 60 CHR ''='')],
      Raised (PyExc UnicodeEncodeError ''ordinal not in range(128)''))"
  by (simp_all add: main_def main_from_def try_block_def except_Exception_def py_print_def
        create_figure5_grid_eq savefig_disk_full_def savefig_ok_def ascii_marks)

section \<open>Reproducible runs\<close>

lemma length_THREADS: "length THREADS_PER_NODE = 6"
  by (simp add: THREADS_PER_NODE_def)

lemma series_throughputs:
  "map (throughput_of rnd)
     (zip (map (\<lambda>num_threads. (system, num_threads, num_nodes, contention, locality))
             THREADS_PER_NODE)
        (draws normal 6 g)) =
   curve rnd normal system num_nodes contention locality g"
  by (simp add: curve_def throughput_of_def zip_map1 length_THREADS case_prod_unfold)

lemma draws_54:
  "draws normal 54 g =
     draws normal 6 g @ draws normal 6 (advance normal 6 g) @
     draws normal 6 (advance normal 12 g) @ draws normal 6 (advance normal 18 g) @
     draws normal 6 (advance normal 24 g) @ draws normal 6 (advance normal 30 g) @
     draws normal 6 (advance normal 36 g) @ draws normal 6 (advance normal 42 g) @
     draws normal 6 (advance normal 48 g)"
proof -
  have "draws normal 54 g = draws normal (6 + (6 + (6 + (6 + (6 + (6 + (6 + (6 + 6)))))))) g"
    by simp
  also have "\<dots> = draws normal 6 g @ draws normal 6 (advance normal 6 g) @
     draws normal 6 (advance normal 12 g) @ draws normal 6 (advance normal 18 g) @
     draws normal 6 (advance normal 24 g) @ draws normal 6 (advance normal 30 g) @
     draws normal 6 (advance normal 36 g) @ draws normal 6 (advance normal 42 g) @
     draws normal 6 (advance normal 48 g)"
    by (simp only: draws_add advance_add) simp
  finally show ?thesis .
qed

lemma panel_throughputs_cols1_3:
  assumes "c < 3"
  shows "map (throughput_of rnd) (zip (panel_parameters c num_nodes) (draws normal 54 g)) =
         concat (map ydata
           (lines_cols1_3 rnd normal num_nodes ([''high'', ''medium'', ''low''] ! c) g))"
  using assms
  by (simp add: panel_parameters_def SYSTEMS_def upt_small draws_54 length_THREADS length_draws
        series_throughputs lines_cols1_3_eq series_contention_def series_locality_def
        LOCALITY_PERCENTAGES_def)

lemma panel_throughputs_col4:
  "map (throughput_of rnd) (zip (panel_parameters 3 num_nodes) (draws normal 54 g)) =
         concat (map ydata (lines_col4 rnd normal num_nodes g))"
  by (simp add: panel_parameters_def SYSTEMS_def upt_small draws_54 length_THREADS length_draws
        series_throughputs lines_col4_eq series_contention_def series_locality_def)

lemma length_panel_parameters: "length (panel_parameters c num_nodes) = 54"
  by (simp add: panel_parameters_def SYSTEMS_def upt_small length_THREADS)

lemma draws_648:
  "draws normal 648 g =
     draws normal 54 g @
     draws normal 54 (advance normal 54 g) @
     draws normal 54 (advance normal 108 g) @
     draws normal 54 (advance normal 162 g) @
     draws normal 54 (advance normal 216 g) @
     draws normal 54 (advance normal 270 g) @
     draws normal 54 (advance normal 324 g) @
     draws normal 54 (advance normal 378 g) @
     draws normal 54 (advance normal 432 g) @
     draws normal 54 (advance normal 486 g) @
     draws normal 54 (advance normal 540 g) @
     draws normal 54 (advance normal 594 g)"
proof -
  have "draws normal 648 g = draws normal (54 + (54 + (54 + (54 + (54 + (54 + (54 + (54 + (54 + (54 + (54 + (54)))))))))))) g"
    by simp
  also have "\<dots> =
     draws normal 54 g @
     draws normal 54 (advance normal 54 g) @
     draws normal 54 (advance normal 108 g) @
     draws normal 54 (advance normal 162 g) @
     draws normal 54 (advance normal 216 g) @
     draws normal 54 (advance normal 270 g) @
     draws normal 54 (advance normal 324 g) @
     draws normal 54 (advance normal 378 g) @
     draws normal 54 (advance normal 432 g) @
     draws normal 54 (advance normal 486 g) @
     draws normal 54 (advance normal 540 g) @
     draws normal 54 (advance normal 594 g)"
    by (simp only: draws_add advance_add) simp
  finally show ?thesis .
qed

lemma grid_throughputs:
  "map (throughput_of rnd) (zip parameter_sequence (draws normal 648 g)) =
     throughput_sequence (grid_axes rnd normal g)"
  by (simp add: parameter_sequence_def throughput_sequence_def upt_small NUM_NODES_def draws_648
        length_panel_parameters length_draws panel_throughputs_cols1_3 panel_throughputs_col4
        grid_lines)

lemma length_parameter_sequence: "length parameter_sequence = 648"
  by (simp add: parameter_sequence_def upt_small NUM_NODES_def length_panel_parameters)

lemma draws_window:
  assumes "k + m \<le> n"
  shows "draws normal m (advance normal k g) = take m (drop k (draws normal n g))"
proof -
  from assms obtain j where n: "n = k + (m + j)"
    by (metis add.assoc le_Suc_ex)
  show ?thesis
    by (simp add: n draws_add length_draws)
qed

lemma curve_cong:
  assumes "draws normal 6 g = draws normal' 6 g'"
  shows "curve rnd normal system num_nodes contention locality g =
         curve rnd normal' system num_nodes contention locality g'"
  using assms by (simp add: curve_def length_THREADS)

lemma curve_window:
  assumes "draws normal n g = draws normal' n g'" and "k + 6 \<le> n"
  shows "curve rnd normal system num_nodes contention locality (advance normal k g) =
         curve rnd normal' system num_nodes contention locality (advance normal' k g')"
proof (rule curve_cong)
  show "draws normal 6 (advance normal k g) = draws normal' 6 (advance normal' k g')"
    using assms by (simp add: draws_window [of k 6 n])
qed

lemma grid_axes_cong:
  assumes "draws normal 648 g = draws normal' 648 g'"
  shows "grid_axes rnd normal g = grid_axes rnd normal' g'"
proof -
  have c: "curve rnd normal system num_nodes contention locality (advance normal k g) =
           curve rnd normal' system num_nodes contention locality (advance normal' k g')"
    if "k + 6 \<le> 648" for system num_nodes contention locality k
    using assms that by (rule curve_window)
  note c0 = c [of 0, simplified]
  show ?thesis
    by (simp add: grid_axes_def cell_def upt_small lines_cols1_3_eq lines_col4_eq
          advance_add c c0 Let_def)
qed

lemma draws_unit_normal: "draws unit_normal n u = replicate n 1"
  by (induction n arbitrary: u) (simp_all add: unit_normal_def)

lemma draws_counting_normal: "draws counting_normal n k = replicate n 1"
  by (induction n arbitrary: k) (simp_all add: counting_normal_def)

text \<open>
  Claim C6. The script seeds the generator once, with 42, and then runs \<open>main\<close>; the
  throughput values of a run are the model applied, in the fixed order of the calls, to
  the first 648 draws, one draw per call. So two runs whose generators yield the same
  draws from seed 42, as the same generator does, build the same array of axes, with
  identical throughput sequences, and print the same.
\<close>

theorem runs_reproducible:
  assumes "draws normal 648 (seed 42) = draws normal' 648 (seed' 42)"
  shows "script rnd seed normal savefig write = script rnd seed' normal' savefig write \<and>
         (\<exists>axs.
            create_figure5_grid rnd normal savefig (seed 42) =
              (case savefig ''fig5_plots/figure5_grid.png'' axs of
                 Some e \<Rightarrow> Inl e
               | None \<Rightarrow> Inr (''fig5_plots/figure5_grid.png'', axs,
                               advance normal 648 (seed 42))) \<and>
            create_figure5_grid rnd normal' savefig (seed' 42) =
              (case savefig ''fig5_plots/figure5_grid.png'' axs of
                 Some e \<Rightarrow> Inl e
               | None \<Rightarrow> Inr (''fig5_plots/figure5_grid.png'', axs,
                               advance normal' 648 (seed' 42))) \<and>
            throughput_sequence axs =
              map (throughput_of rnd) (zip parameter_sequence (draws normal 648 (seed 42)))) \<and>
         length parameter_sequence = 648 \<and>
         (\<forall>system num_threads num_nodes contention locality z.
            throughput_of rnd ((system, num_threads, num_nodes, contention, locality), z) =
              fst (generate_synthetic_throughput rnd (\<lambda>u::unit. (z, u)) system num_threads
                     num_nodes contention locality ()))"
proof -
  have eq: "grid_axes rnd normal (seed 42) = grid_axes rnd normal' (seed' 42)"
    using assms by (rule grid_axes_cong)
  have 1: "script rnd seed normal savefig write = script rnd seed' normal' savefig write"
    by (simp add: script_def main_def create_figure5_grid_eq eq Let_def split: option.split)
  have 2: "\<exists>axs.
            create_figure5_grid rnd normal savefig (seed 42) =
              (case savefig ''fig5_plots/figure5_grid.png'' axs of
                 Some e \<Rightarrow> Inl e
               | None \<Rightarrow> Inr (''fig5_plots/figure5_grid.png'', axs,
                               advance normal 648 (seed 42))) \<and>
            create_figure5_grid rnd normal' savefig (seed' 42) =
              (case savefig ''fig5_plots/figure5_grid.png'' axs of
                 Some e \<Rightarrow> Inl e
               | None \<Rightarrow> Inr (''fig5_plots/figure5_grid.png'', axs,
                               advance normal' 648 (seed' 42))) \<and>
            throughput_sequence axs =
              map (throughput_of rnd) (zip parameter_sequence (draws normal 648 (seed 42)))"
  proof (intro exI [of _ "grid_axes rnd normal (seed 42)"] conjI)
    show "create_figure5_grid rnd normal savefig (seed 42) =
              (case savefig ''fig5_plots/figure5_grid.png'' (grid_axes rnd normal (seed 42)) of
                 Some e \<Rightarrow> Inl e
               | None \<Rightarrow> Inr (''fig5_plots/figure5_grid.png'', grid_axes rnd normal (seed 42),
                               advance normal 648 (seed 42)))"
      by (rule create_figure5_grid_eq)
    show "create_figure5_grid rnd normal' savefig (seed' 42) =
              (case savefig ''fig5_plots/figure5_grid.png'' (grid_axes rnd normal (seed 42)) of
                 Some e \<Rightarrow> Inl e
               | None \<Rightarrow> Inr (''fig5_plots/figure5_grid.png'', grid_axes rnd normal (seed 42),
                               advance normal' 648 (seed' 42)))"
      unfolding eq by (rule create_figure5_grid_eq)
    show "throughput_sequence (grid_axes rnd normal (seed 42)) =
              map (throughput_of rnd) (zip parameter_sequence (draws normal 648 (seed 42)))"
      by (rule grid_throughputs [symmetric])
  qed
  have 3: "\<forall>system num_threads num_nodes contention locality z.
            throughput_of rnd ((system, num_threads, num_nodes, contention, locality), z) =
              fst (generate_synthetic_throughput rnd (\<lambda>u::unit. (z, u)) system num_threads
                     num_nodes contention locality ())"
    by (simp add: throughput_of_def generate_eq)
  from 1 2 3 length_parameter_sequence show ?thesis by (intro conjI)
qed

theorem runs_reproducible_witness:
  "draws unit_normal 648 (unit_seed 42) = draws counting_normal 648 (nat_seed 42) \<and>
   script binary64 unit_seed unit_normal savefig_ok write_utf8
     = script binary64 nat_seed counting_normal savefig_ok write_utf8 \<and>
   (\<exists>axs.
      create_figure5_grid binary64 unit_normal savefig_ok (unit_seed 42) =
        Inr (''fig5_plots/figure5_grid.png'', axs, advance unit_normal 648 (unit_seed 42)) \<and>
      create_figure5_grid binary64 counting_normal savefig_ok (nat_seed 42) =
        Inr (''fig5_plots/figure5_grid.png'', axs, advance counting_normal 648 (nat_seed 42)) \<and>
      throughput_sequence axs =
        map (throughput_of binary64) (zip parameter_sequence (replicate 648 1)))"
proof -
  have h: "draws unit_normal 648 (unit_seed 42) = draws counting_normal 648 (nat_seed 42)"
    by (simp add: draws_unit_normal draws_counting_normal)
  from runs_reproducible [where normal = unit_normal and seed = unit_seed
      and normal' = counting_normal and seed' = nat_seed and rnd = binary64
      and savefig = savefig_ok, OF h, of write_utf8]
  have 1: "script binary64 unit_seed unit_normal savefig_ok write_utf8
             = script binary64 nat_seed counting_normal savefig_ok write_utf8"
    and 2: "\<exists>axs.
            create_figure5_grid binary64 unit_normal savefig_ok (unit_seed 42) =
              (case savefig_ok ''fig5_plots/figure5_grid.png'' axs of
                 Some e \<Rightarrow> Inl e
               | None \<Rightarrow> Inr (''fig5_plots/figure5_grid.png'', axs,
                               advance unit_normal 648 (unit_seed 42))) \<and>
            create_figure5_grid binary64 counting_normal savefig_ok (nat_seed 42) =
              (case savefig_ok ''fig5_plots/figure5_grid.png'' axs of
                 Some e \<Rightarrow> Inl e
               | None \<Rightarrow> Inr (''fig5_plots/figure5_grid.png'', axs,
                               advance counting_normal 648 (nat_seed 42))) \<and>
            throughput_sequence axs =
              map (throughput_of binary64)
                (zip parameter_sequence (draws unit_normal 648 (unit_seed 42)))"
    by blast+
  from 2 have 3: "\<exists>axs.
      create_figure5_grid binary64 unit_normal savefig_ok (unit_seed 42) =
        Inr (''fig5_plots/figure5_grid.png'', axs, advance unit_normal 648 (unit_seed 42)) \<and>
      create_figure5_grid binary64 counting_normal savefig_ok (nat_seed 42) =
        Inr (''fig5_plots/figure5_grid.png'', axs, advance counting_normal 648 (nat_seed 42)) \<and>
      throughput_sequence axs =
        map (throughput_of binary64) (zip parameter_sequence (replicate 648 1))"
    by (simp add: savefig_ok_def draws_unit_normal)
  from h 1 3 show ?thesis by (intro conjI)
qed

end
